theory Spec2Isabelle
  imports Complex_Main "HOL-Library.Word" "HOL-Library.AList" "HOL-Library.Sublist"
begin

unbundle bit_operations_syntax

section \<open>Service supervisor (src/services/ServiceManager.ts)\<close>

text \<open>
  A JavaScript \<open>Map\<close> keeps its entries in insertion order, \<open>set\<close> on a present key
  replaces the value in place and on an absent key appends. That is an association
  list with \<open>map_of\<close> for \<open>get\<close>, \<open>AList.update\<close> for \<open>set\<close> and \<open>AList.delete\<close> for
  \<open>delete\<close>. Times are \<open>Date.now()\<close> in milliseconds, handed to each operation by its
  caller. A child process is a handle drawn from a counter; what \<open>spawn\<close> does (return
  a child with or without a pid, or throw) is an argument of the operation that calls
  it. \<open>restartService\<close> and \<open>stopAll\<close>, which only chain \<open>stopService\<close> and
  \<open>startService\<close>, are not part of the model.
\<close>

datatype run_status = Stopped | Starting | Running | Error

record ServiceConfig =
  svc_id :: string
  svc_name :: string
  command :: string
  args :: "string list"
  svc_cwd :: "string option"
  svc_env :: "(string \<times> string) list option"
  autoStart :: bool
  restartOnFailure :: bool

record ServiceStatus =
  st_id :: string
  st_name :: string
  st_status :: run_status
  pid :: "nat option"
  uptime :: "int option"
  lastError :: "string option"

record ManagedService =
  config :: ServiceConfig
  process :: "nat option"
  status :: ServiceStatus
  startTime :: "int option"

datatype stream = Stdout | Stderr

datatype signal = SIGTERM | SIGKILL

datatype timer = RestartTimer string | KillTimer string nat

datatype spawn_result = SpawnOk "nat option" | SpawnThrows string

datatype sm_error = AlreadyRegistered string | NotFound string | SpawnFailed string

datatype effect =
    EmitRegistered ServiceConfig
  | EmitStatus ServiceStatus
  | EmitOutput string stream string
  | EmitError string string
  | EmitExit string "int option" "string option"
  | SpawnChild nat string "string list"
  | KillChild nat signal
  | Resolved string

text \<open>
  \<open>procs\<close> holds the children whose \<open>exit\<close> event has not fired yet, each with the
  id of the service whose handlers were attached to it in \<open>startService\<close>;
  \<open>stopWaiters\<close> holds one entry per \<open>proc.once('exit', ...)\<close> listener that
  \<open>stopService\<close> attached; \<open>timers\<close> holds the pending \<open>setTimeout\<close> callbacks with
  the time at which each is due.
\<close>

record ServiceManager =
  services :: "(string \<times> ManagedService) list"
  procs :: "(nat \<times> string) list"
  stopWaiters :: "nat list"
  timers :: "(int \<times> timer) list"
  nextProc :: nat

definition newServiceManager :: ServiceManager where
  "newServiceManager =
     \<lparr>services = [], procs = [], stopWaiters = [], timers = [], nextProc = 0\<rparr>"

definition registerService ::
  "ServiceConfig \<Rightarrow> ServiceManager \<Rightarrow> ServiceManager \<times> effect list \<times> sm_error option" where
  "registerService cfg s =
     (case map_of (services s) (svc_id cfg) of
        Some _ \<Rightarrow> (s, [], Some (AlreadyRegistered (svc_id cfg)))
      | None \<Rightarrow>
          (s\<lparr>services := AList.update (svc_id cfg)
                \<lparr>config = cfg, process = None,
                 status = \<lparr>st_id = svc_id cfg, st_name = svc_name cfg, st_status = Stopped,
                           pid = None, uptime = None, lastError = None\<rparr>,
                 startTime = None\<rparr> (services s)\<rparr>,
           [EmitRegistered cfg], None))"

definition startService ::
  "string \<Rightarrow> int \<Rightarrow> spawn_result \<Rightarrow> ServiceManager
     \<Rightarrow> ServiceManager \<times> effect list \<times> sm_error option" where
  "startService i now sp s =
     (case map_of (services s) i of
        None \<Rightarrow> (s, [], Some (NotFound i))
      | Some service \<Rightarrow>
          if st_status (status service) = Running then (s, [], None)
          else
            let st1 = (status service)\<lparr>st_status := Starting\<rparr> in
            (case sp of
               SpawnOk p \<Rightarrow>
                 let h = nextProc s;
                     st2 = st1\<lparr>st_status := Running, pid := p\<rparr>
                 in (s\<lparr>services := AList.update i
                          (service\<lparr>process := Some h, startTime := Some now, status := st2\<rparr>)
                          (services s),
                       procs := procs s @ [(h, i)],
                       nextProc := Suc h\<rparr>,
                     [EmitStatus st1,
                      SpawnChild h (command (config service)) (args (config service)),
                      EmitStatus st2],
                     None)
             | SpawnThrows msg \<Rightarrow>
                 let st2 = st1\<lparr>st_status := Error, lastError := Some msg\<rparr>
                 in (s\<lparr>services := AList.update i (service\<lparr>status := st2\<rparr>) (services s)\<rparr>,
                     [EmitStatus st1, EmitStatus st2],
                     Some (SpawnFailed msg))))"

text \<open>
  The \<open>exit\<close> event of child \<open>h\<close>: first the handler attached by \<open>startService\<close>
  (it resets the service, emits, and arms the restart timer when the configuration asks
  for it and the exit code is not the number 0; a child killed by a signal has the code
  \<open>null\<close>), then every \<open>once\<close> listener of \<open>stopService\<close>.
\<close>

definition procExit ::
  "nat \<Rightarrow> int option \<Rightarrow> string option \<Rightarrow> int \<Rightarrow> ServiceManager
     \<Rightarrow> ServiceManager \<times> effect list" where
  "procExit h code sig now s =
     (case map_of (procs s) h of
        None \<Rightarrow> (s, [])
      | Some i \<Rightarrow>
          (case map_of (services s) i of
             None \<Rightarrow> (s, [])
           | Some service \<Rightarrow>
               let st1 = (status service)\<lparr>st_status := Stopped\<rparr>;
                   restart = (if restartOnFailure (config service) \<and> code \<noteq> Some 0
                              then [(now + 5000, RestartTimer i)] else []);
                   waiters = filter (\<lambda>w. w = h) (stopWaiters s)
               in (s\<lparr>services := AList.update i
                         (service\<lparr>status := st1, process := None, startTime := None\<rparr>)
                         (services s),
                      procs := AList.delete h (procs s),
                      stopWaiters := filter (\<lambda>w. w \<noteq> h) (stopWaiters s),
                      timers := timers s @ restart\<rparr>,
                   [EmitStatus st1, EmitExit i code sig]
                     @ concat (map (\<lambda>_. [EmitStatus st1, Resolved i]) waiters))))"

definition procError :: "nat \<Rightarrow> string \<Rightarrow> ServiceManager \<Rightarrow> ServiceManager \<times> effect list" where
  "procError h msg s =
     (case map_of (procs s) h of
        None \<Rightarrow> (s, [])
      | Some i \<Rightarrow>
          (case map_of (services s) i of
             None \<Rightarrow> (s, [])
           | Some service \<Rightarrow>
               let st1 = (status service)\<lparr>st_status := Error, lastError := Some msg\<rparr>
               in (s\<lparr>services := AList.update i (service\<lparr>status := st1\<rparr>) (services s)\<rparr>,
                   [EmitStatus st1, EmitError i msg])))"

definition procOutput :: "nat \<Rightarrow> stream \<Rightarrow> string \<Rightarrow> ServiceManager \<Rightarrow> effect list" where
  "procOutput h str d s =
     (case map_of (procs s) h of None \<Rightarrow> [] | Some i \<Rightarrow> [EmitOutput i str d])"

definition stopService ::
  "string \<Rightarrow> int \<Rightarrow> ServiceManager \<Rightarrow> ServiceManager \<times> effect list" where
  "stopService i now s =
     (case map_of (services s) i of
        None \<Rightarrow> (s, [Resolved i])
      | Some service \<Rightarrow>
          (case process service of
             None \<Rightarrow> (s, [Resolved i])
           | Some h \<Rightarrow>
               (s\<lparr>stopWaiters := stopWaiters s @ [h],
                  timers := timers s @ [(now + 10000, KillTimer i h)]\<rparr>,
                [KillChild h SIGTERM])))"

text \<open>
  A pending timer fires no earlier than it is due, once. The restart timer's callback
  is \<open>() => this.startService(id)\<close>; the kill timer's callback sends SIGKILL when
  the service still has a process.
\<close>

definition fireTimer ::
  "int \<times> timer \<Rightarrow> int \<Rightarrow> spawn_result \<Rightarrow> ServiceManager
     \<Rightarrow> ServiceManager \<times> effect list \<times> sm_error option" where
  "fireTimer t now sp s =
     (if t \<notin> set (timers s) \<or> now < fst t then (s, [], None)
      else
        let s1 = s\<lparr>timers := remove1 t (timers s)\<rparr> in
        (case snd t of
           RestartTimer i \<Rightarrow> startService i now sp s1
         | KillTimer i h \<Rightarrow>
             (case map_of (services s1) i of
                None \<Rightarrow> (s1, [], None)
              | Some service \<Rightarrow>
                  if process service \<noteq> None then (s1, [KillChild h SIGKILL], None)
                  else (s1, [], None))))"

text \<open>
  \<open>getStatus\<close> writes the uptime into the service's own status object when
  \<open>startTime\<close> is truthy (a number other than 0) and returns a copy of that object.
\<close>

definition getStatus ::
  "string \<Rightarrow> int \<Rightarrow> ServiceManager \<Rightarrow> ServiceStatus option \<times> ServiceManager" where
  "getStatus i now s =
     (case map_of (services s) i of
        None \<Rightarrow> (None, s)
      | Some service \<Rightarrow>
          let st = (case startTime service of
                      None \<Rightarrow> status service
                    | Some t \<Rightarrow> if t \<noteq> 0 then (status service)\<lparr>uptime := Some (now - t)\<rparr>
                                else status service)
          in (Some st, s\<lparr>services := AList.update i (service\<lparr>status := st\<rparr>) (services s)\<rparr>))"

fun getStatuses ::
  "string list \<Rightarrow> int \<Rightarrow> ServiceManager \<Rightarrow> ServiceStatus list \<times> ServiceManager" where
  "getStatuses [] now s = ([], s)"
| "getStatuses (i # is) now s =
     (case getStatus i now s of
        (None, s1) \<Rightarrow> getStatuses is now s1
      | (Some st, s1) \<Rightarrow> (case getStatuses is now s1 of (sts, s2) \<Rightarrow> (st # sts, s2)))"

definition getAllStatuses :: "int \<Rightarrow> ServiceManager \<Rightarrow> ServiceStatus list \<times> ServiceManager" where
  "getAllStatuses now s = getStatuses (map fst (services s)) now s"

section \<open>PTY pool (PTYManager, second part of src/main/preload.ts)\<close>

record PTYSession =
  sess_id :: string
  sess_name :: string
  cols :: int
  rows :: int
  cwd :: string
  shell :: string
  createdAt :: int

text \<open>The \<open>options\<close> object of \<open>createSession\<close>; every field may be absent.\<close>

record create_options =
  opt_name :: "string option"
  opt_cols :: "int option"
  opt_rows :: "int option"
  opt_cwd :: "string option"
  opt_shell :: "string option"
  opt_env :: "(string \<times> string) list option"

text \<open>
  \<open>sessions\<close> is the \<open>Map\<close> from session id to \<open>ManagedPTY\<close>; the PTY child of a
  session is named by the session's id. \<open>envHOME\<close> is \<open>process.env.HOME\<close>. The
  pool's \<open>handleMessage\<close> and \<open>closeAll\<close>, which only call \<open>write\<close>, \<open>resize\<close> and
  \<open>closeSession\<close>, are not part of the model.
\<close>

record PTYManager =
  sessions :: "(string \<times> PTYSession) list"
  defaultShell :: string
  envHOME :: "string option"

datatype pty_effect =
    PtySpawn PTYSession
  | PtyWrite string string
  | PtyResize string int int
  | PtyKill string
  | EmitSessionCreated PTYSession
  | EmitSessionClosed string

definition ALLOWED_SHELLS :: "string list" where
  "ALLOWED_SHELLS =
     [''/bin/zsh'', ''/bin/bash'', ''/bin/sh'', ''/usr/bin/zsh'', ''/usr/bin/bash'',
      ''/usr/local/bin/zsh'', ''/usr/local/bin/bash'']"

definition isValidShell :: "string \<Rightarrow> bool" where
  "isValidShell sh = (sh \<in> set ALLOWED_SHELLS)"

text \<open>\<open>s.includes(sub)\<close> and \<open>s.startsWith(p)\<close> of JavaScript strings.\<close>

fun str_includes :: "string \<Rightarrow> string \<Rightarrow> bool" where
  "str_includes [] sub = (sub = [])"
| "str_includes (c # cs) sub = (prefix sub (c # cs) \<or> str_includes cs sub)"

definition startsWith :: "string \<Rightarrow> string \<Rightarrow> bool" where
  "startsWith s p = prefix p s"

definition isValidCwd :: "string \<Rightarrow> bool" where
  "isValidCwd d = (if str_includes d ''..'' then False else startsWith d ''/'')"

text \<open>
  \<open>a || b\<close> on an optional string (absent and the empty string are falsy) and on an
  optional number (absent and 0 are falsy).
\<close>

definition or_str :: "string option \<Rightarrow> string \<Rightarrow> string" where
  "or_str a b = (case a of None \<Rightarrow> b | Some v \<Rightarrow> if v = [] then b else v)"

definition or_num :: "int option \<Rightarrow> int \<Rightarrow> int" where
  "or_num a b = (case a of None \<Rightarrow> b | Some v \<Rightarrow> if v = 0 then b else v)"

definition truthy_str :: "string option \<Rightarrow> bool" where
  "truthy_str a = (case a of None \<Rightarrow> False | Some v \<Rightarrow> v \<noteq> [])"

definition truthy_num :: "int option \<Rightarrow> bool" where
  "truthy_num a = (case a of None \<Rightarrow> False | Some v \<Rightarrow> v \<noteq> 0)"

text \<open>Decimal printing of a number, for the template string \<open>Terminal ${n}\<close>.\<close>

fun decimal :: "nat \<Rightarrow> string" where
  "decimal n =
     (if n < 10 then [''0123456789'' ! n]
      else decimal (n div 10) @ [''0123456789'' ! (n mod 10)])"

declare decimal.simps [simp del]

text \<open>
  \<open>createSession\<close> with the id that \<open>uuidv4()\<close> returns, the time and whether
  \<open>pty.spawn\<close> succeeds. When \<open>pty.spawn\<close> throws, the exception leaves the function
  before the session is stored: the result is \<open>None\<close> and the pool is unchanged.
\<close>

definition createSession ::
  "create_options \<Rightarrow> string \<Rightarrow> int \<Rightarrow> bool \<Rightarrow> PTYManager
     \<Rightarrow> PTYSession option \<times> PTYManager \<times> pty_effect list" where
  "createSession options uuid now spawnOk m =
     (let shell0 = or_str (opt_shell options) (defaultShell m);
          shell1 = (if truthy_str (opt_shell options)
                       \<and> \<not> isValidShell (or_str (opt_shell options) [])
                    then defaultShell m else shell0);
          cwd0 = or_str (opt_cwd options) (or_str (envHOME m) ''/'');
          cwd1 = (if truthy_str (opt_cwd options) \<and> \<not> isValidCwd (or_str (opt_cwd options) [])
                  then or_str (envHOME m) ''/'' else cwd0);
          session = \<lparr>sess_id = uuid,
                     sess_name = or_str (opt_name options)
                                   (''Terminal '' @ decimal (length (sessions m) + 1)),
                     cols = or_num (opt_cols options) 80,
                     rows = or_num (opt_rows options) 24,
                     cwd = cwd1, shell = shell1, createdAt = now\<rparr>
      in if \<not> spawnOk then (None, m, [])
         else (Some session,
               m\<lparr>sessions := AList.update uuid session (sessions m)\<rparr>,
               [PtySpawn session, EmitSessionCreated session]))"

definition pty_write :: "string \<Rightarrow> string \<Rightarrow> PTYManager \<Rightarrow> PTYManager \<times> pty_effect list" where
  "pty_write sessionId d m =
     (case map_of (sessions m) sessionId of
        None \<Rightarrow> (m, [])
      | Some managed \<Rightarrow> (m, [PtyWrite sessionId d]))"

text \<open>
  \<open>resize\<close> calls the PTY's own \<open>resize\<close> first, and that throws unless cols and
  rows are both positive: the result is then \<open>None\<close>, the exception, raised before
  the cached size is assigned. For an id that is not in the pool nothing is called.
\<close>

definition pty_resize ::
  "string \<Rightarrow> int \<Rightarrow> int \<Rightarrow> PTYManager \<Rightarrow> (PTYManager \<times> pty_effect list) option" where
  "pty_resize sessionId c r m =
     (case map_of (sessions m) sessionId of
        None \<Rightarrow> Some (m, [])
      | Some managed \<Rightarrow>
          if c \<le> 0 \<or> r \<le> 0 then None
          else Some (m\<lparr>sessions :=
                         AList.update sessionId (managed\<lparr>cols := c, rows := r\<rparr>) (sessions m)\<rparr>,
                     [PtyResize sessionId c r]))"

definition closeSession :: "string \<Rightarrow> PTYManager \<Rightarrow> PTYManager \<times> pty_effect list" where
  "closeSession sessionId m =
     (case map_of (sessions m) sessionId of
        None \<Rightarrow> (m, [])
      | Some managed \<Rightarrow>
          (m\<lparr>sessions := AList.delete sessionId (sessions m)\<rparr>,
           [PtyKill sessionId, EmitSessionClosed sessionId]))"

definition getSession :: "string \<Rightarrow> PTYManager \<Rightarrow> PTYSession option" where
  "getSession sessionId m = map_of (sessions m) sessionId"

definition getAllSessions :: "PTYManager \<Rightarrow> PTYSession list" where
  "getAllSessions m = map snd (sessions m)"

section \<open>Remote session gateway (RemoteServer, third part of src/main/preload.ts)\<close>

subsection \<open>Origin filter\<close>

text \<open>
  A JavaScript number is NaN, an infinity or a finite value. \<open>Number\<close>, the
  conversion of a string to a number, belongs to the language and not to the
  repository: the functions that call it take it as the argument \<open>N\<close>.
\<close>

datatype jsnum = NaN | PosInf | NegInf | Fin real

definition num_eq :: "jsnum \<Rightarrow> real \<Rightarrow> bool" where
  "num_eq a n = (case a of Fin x \<Rightarrow> x = n | _ \<Rightarrow> False)"

definition num_ge :: "jsnum \<Rightarrow> real \<Rightarrow> bool" where
  "num_ge a n = (case a of Fin x \<Rightarrow> n \<le> x | PosInf \<Rightarrow> True | _ \<Rightarrow> False)"

definition num_le :: "jsnum \<Rightarrow> real \<Rightarrow> bool" where
  "num_le a n = (case a of Fin x \<Rightarrow> x \<le> n | NegInf \<Rightarrow> True | _ \<Rightarrow> False)"

text \<open>\<open>s.split(sep)\<close> for a one-character separator: never the empty list.\<close>

fun split_on :: "char \<Rightarrow> string \<Rightarrow> string list" where
  "split_on sep [] = [[]]"
| "split_on sep (c # cs) =
     (if c = sep then [] # split_on sep cs
      else (case split_on sep cs of [] \<Rightarrow> [[c]] | p # ps \<Rightarrow> (c # p) # ps))"

definition normalizeIP :: "string \<Rightarrow> string" where
  "normalizeIP ip = (if startsWith ip ''::ffff:'' then drop 7 ip else ip)"

definition isInTailscaleRange :: "(string \<Rightarrow> jsnum) \<Rightarrow> string \<Rightarrow> bool" where
  "isInTailscaleRange N ip =
     (let normalized = normalizeIP ip;
          parts = map N (split_on CHR ''.'' normalized)
      in if length parts \<noteq> 4 then False
         else num_eq (parts ! 0) 100 \<and> num_ge (parts ! 1) 64 \<and> num_le (parts ! 1) 127)"

subsection \<open>Token comparison\<close>

text \<open>
  \<open>Buffer.from(string)\<close> is the string's bytes. \<open>crypto.timingSafeEqual\<close> belongs to
  the platform: it throws (\<open>None\<close>) on buffers of different lengths and otherwise reads
  every pair of bytes, folding the differences into one accumulator. The model returns
  the verdict together with the number of byte pairs it read.
\<close>

type_synonym buffer = "8 word list"

definition Buffer_from :: "string \<Rightarrow> buffer" where
  "Buffer_from str = map (\<lambda>c. of_nat (of_char c)) str"

fun fold_diff :: "8 word \<Rightarrow> nat \<Rightarrow> buffer \<Rightarrow> buffer \<Rightarrow> 8 word \<times> nat" where
  "fold_diff acc n (a # as) (b # bs) = fold_diff (acc OR (a XOR b)) (Suc n) as bs"
| "fold_diff acc n _ _ = (acc, n)"

definition timingSafeEqual :: "buffer \<Rightarrow> buffer \<Rightarrow> (bool \<times> nat) option" where
  "timingSafeEqual a b =
     (if length a \<noteq> length b then None
      else case fold_diff 0 0 a b of (acc, n) \<Rightarrow> Some (acc = 0, n))"

text \<open>
  The guard of \<open>handleAuth\<close>,
  \<open>tokenBuffer.length !== payloadBuffer.length || !crypto.timingSafeEqual(...)\<close>:
  whether the token is accepted, and how many byte pairs were read to decide it.
\<close>

definition tokenAccepted :: "buffer \<Rightarrow> buffer \<Rightarrow> bool \<times> nat" where
  "tokenAccepted tokenBuffer payloadBuffer =
     (if length tokenBuffer \<noteq> length payloadBuffer then (False, 0)
      else case timingSafeEqual tokenBuffer payloadBuffer of
             None \<Rightarrow> (False, 0)
           | Some (same, n) \<Rightarrow> (same, n))"

subsection \<open>State and frames\<close>

text \<open>
  A WebSocket is named by the id of its connection. \<open>connections\<close> holds the
  connections whose \<open>message\<close> and \<open>close\<close> listeners are installed, each with the
  \<open>isLocal\<close> flag its closure captured; \<open>openSockets\<close> holds the sockets whose
  \<open>readyState\<close> is \<open>OPEN\<close>. \<open>sessionOwnership\<close> is the module-level map from
  session id to device id. The authentication timer, and the \<open>start\<close>, \<open>stop\<close> and
  \<open>restart\<close> actions of service frames (they act on the supervisor alone) are not part
  of this model.
\<close>

record AuthenticatedClient =
  client_id :: string
  ws :: string
  deviceId :: string
  deviceName :: string
  authenticatedAt :: int
  sessionSubscriptions :: "string set"
  ownedSessions :: "string set"
  serviceSubscriptions :: "string set"
  isLocal :: bool

record RemoteServer =
  clients :: "(string \<times> AuthenticatedClient) list"
  authToken :: string
  restrictToTailscale :: bool
  sessionOwnership :: "(string \<times> string) list"
  ptyManager :: PTYManager
  serviceManager :: ServiceManager
  connections :: "(string \<times> bool) list"
  openSockets :: "string set"

record AuthPayload =
  token :: string
  clientId :: string
  payloadDeviceName :: string

datatype pty_request =
    Create create_options
  | Write string string
  | Resize string "int option" "int option"
  | CloseReq string
  | Subscribe string
  | Unsubscribe string
  | ListReq
  | OtherPty string

datatype service_request =
    SvcList
  | SvcSubscribe string
  | SvcUnsubscribe string
  | OtherSvc string

datatype system_request = Ping | Info | OtherSys string

datatype request =
    Auth AuthPayload
  | Pty pty_request
  | Service service_request
  | System system_request
  | UnknownType string

text \<open>A received text message: JSON that parses to a frame, or anything else.\<close>

datatype frame = Frame request "string option" | Malformed

datatype out_payload =
    PAuthSuccess string "PTYSession list" "ServiceStatus list"
  | PCreated PTYSession
  | PSessions "PTYSession list"
  | PError string
  | PData string string
  | PExit string "int option" "int option"
  | PServiceList "ServiceStatus list"
  | PStatus ServiceStatus
  | POutput string stream string
  | PPong int
  | PInfo

text \<open>An outgoing frame: type, action, payload, requestId.\<close>

datatype out_message = OutMsg string string out_payload "string option"

datatype reaction =
    Send string out_message
  | Close string nat string
  | PtyDo pty_effect

text \<open>What the environment decides during one event: the clock, the next uuid, \<open>pty.spawn\<close>.\<close>

record env =
  env_now :: int
  env_uuid :: string
  env_spawnOk :: bool

definition send :: "string \<Rightarrow> out_message \<Rightarrow> RemoteServer \<Rightarrow> reaction list" where
  "send sock msg srv = (if sock \<in> openSockets srv then [Send sock msg] else [])"

definition sendError :: "string \<Rightarrow> string \<Rightarrow> RemoteServer \<Rightarrow> reaction list" where
  "sendError sock err srv = send sock (OutMsg ''system'' ''error'' (PError err) None) srv"

definition broadcast :: "out_message \<Rightarrow> RemoteServer \<Rightarrow> reaction list" where
  "broadcast msg srv = concat (map (\<lambda>c. send (ws c) msg srv) (map snd (clients srv)))"

definition broadcastToSubscribers :: "string \<Rightarrow> out_message \<Rightarrow> RemoteServer \<Rightarrow> reaction list" where
  "broadcastToSubscribers sessionId msg srv =
     concat (map (\<lambda>c. if sessionId \<in> sessionSubscriptions c then send (ws c) msg srv else [])
                 (map snd (clients srv)))"

definition broadcastToServiceSubscribers ::
  "string \<Rightarrow> out_message \<Rightarrow> RemoteServer \<Rightarrow> reaction list" where
  "broadcastToServiceSubscribers serviceId msg srv =
     concat (map (\<lambda>c. if serviceId \<in> serviceSubscriptions c then send (ws c) msg srv else [])
                 (map snd (clients srv)))"

text \<open>A handler changes the client object it was given; the object lives in \<open>clients\<close>.\<close>

definition storeClient :: "AuthenticatedClient \<Rightarrow> RemoteServer \<Rightarrow> RemoteServer" where
  "storeClient c srv = srv\<lparr>clients := AList.update (client_id c) c (clients srv)\<rparr>"

subsection \<open>Connection accept\<close>

text \<open>
  The origin check of the \<open>connection\<close> listener: it runs only when
  \<open>restrictToTailscale\<close> is set and the address is truthy (present, not empty).
\<close>

definition originRejected :: "(string \<Rightarrow> jsnum) \<Rightarrow> bool \<Rightarrow> string option \<Rightarrow> bool" where
  "originRejected N restrict ip =
     (case ip of
        None \<Rightarrow> False
      | Some a \<Rightarrow>
          if restrict \<and> a \<noteq> [] then
            (let normalizedIP = normalizeIP a;
                 isLocalhost = (normalizedIP = ''127.0.0.1'' \<or> normalizedIP = ''::1'');
                 isTailscale = isInTailscaleRange N normalizedIP
             in \<not> isLocalhost \<and> \<not> isTailscale)
          else False)"

definition onConnection ::
  "(string \<Rightarrow> jsnum) \<Rightarrow> string \<Rightarrow> string option \<Rightarrow> RemoteServer
     \<Rightarrow> RemoteServer \<times> reaction list" where
  "onConnection N cid ip srv =
     (if originRejected N (restrictToTailscale srv) ip
      then (srv, [Close cid 4000 ''Connection not allowed from this address''])
      else
        let normalizedIP = (case ip of None \<Rightarrow> [] | Some a \<Rightarrow> if a \<noteq> [] then normalizeIP a else []);
            loc = (normalizedIP = ''127.0.0.1'' \<or> normalizedIP = ''::1'')
        in (srv\<lparr>connections := AList.update cid loc (connections srv),
                 openSockets := insert cid (openSockets srv)\<rparr>, []))"

subsection \<open>Authentication\<close>

definition handleAuth ::
  "string \<Rightarrow> AuthPayload \<Rightarrow> string option \<Rightarrow> bool \<Rightarrow> int \<Rightarrow> RemoteServer
     \<Rightarrow> RemoteServer \<times> reaction list" where
  "handleAuth cid payload requestId loc now srv =
     (let tokenBuffer = Buffer_from (authToken srv);
          payloadBuffer = Buffer_from (token payload)
      in if \<not> fst (tokenAccepted tokenBuffer payloadBuffer)
         then (srv\<lparr>openSockets := openSockets srv - {cid}\<rparr>,
               [Close cid 4003 ''Invalid authentication token''])
         else
           let dev = or_str (Some (clientId payload)) cid;
               owned = set (map fst (filter (\<lambda>(sessionId, ownerId). ownerId = dev)
                                            (sessionOwnership srv)));
               client = \<lparr>client_id = cid, ws = cid, deviceId = dev,
                         deviceName = payloadDeviceName payload, authenticatedAt = now,
                         sessionSubscriptions = owned, ownedSessions = owned,
                         serviceSubscriptions = {}, isLocal = loc\<rparr>;
               srv1 = srv\<lparr>clients := AList.update cid client (clients srv)\<rparr>;
               deviceSessions =
                 (if isLocal client then getAllSessions (ptyManager srv1)
                  else filter (\<lambda>s. map_of (sessionOwnership srv1) (sess_id s) = Some dev)
                              (getAllSessions (ptyManager srv1)))
           in case getAllStatuses now (serviceManager srv1) of
                (statuses, sm) \<Rightarrow>
                  (srv1\<lparr>serviceManager := sm\<rparr>,
                   send cid (OutMsg ''auth'' ''success''
                               (PAuthSuccess cid deviceSessions statuses) requestId) srv1))"

subsection \<open>PTY frames\<close>

definition canAccessSession :: "AuthenticatedClient \<Rightarrow> string \<Rightarrow> bool" where
  "canAccessSession client sessionId =
     (if isLocal client then True
      else sessionId \<in> ownedSessions client \<or> sessionId \<in> sessionSubscriptions client)"

text \<open>
  \<open>None\<close> is an exception that leaves the handler: \<open>pty.spawn\<close> failed inside
  \<open>createSession\<close>, or the PTY refused the size inside \<open>resize\<close>, in both cases
  before anything was changed.
\<close>

definition handlePTYMessage ::
  "AuthenticatedClient \<Rightarrow> pty_request \<Rightarrow> string option \<Rightarrow> env \<Rightarrow> RemoteServer
     \<Rightarrow> (RemoteServer \<times> reaction list) option" where
  "handlePTYMessage client req requestId e srv =
     (case req of
        Create options \<Rightarrow>
          (case createSession options (env_uuid e) (env_now e) (env_spawnOk e) (ptyManager srv) of
             (None, _, _) \<Rightarrow> None
           | (Some session, m, effs) \<Rightarrow>
               Some (storeClient
                       (client\<lparr>sessionSubscriptions :=
                                 insert (sess_id session) (sessionSubscriptions client),
                               ownedSessions := insert (sess_id session) (ownedSessions client)\<rparr>)
                       (srv\<lparr>ptyManager := m,
                            sessionOwnership :=
                              AList.update (sess_id session) (deviceId client)
                                (sessionOwnership srv)\<rparr>),
                     map PtyDo effs
                       @ send (ws client) (OutMsg ''pty'' ''created'' (PCreated session) requestId) srv))
      | Write sessionId d \<Rightarrow>
          if \<not> canAccessSession client sessionId then
            Some (srv, sendError (ws client)
                    (''Access denied: You don't have permission to write to session '' @ sessionId) srv)
          else (case pty_write sessionId d (ptyManager srv) of
                  (m, effs) \<Rightarrow> Some (srv\<lparr>ptyManager := m\<rparr>, map PtyDo effs))
      | Resize sessionId c r \<Rightarrow>
          if sessionId \<noteq> [] \<and> truthy_num c \<and> truthy_num r then
            if \<not> canAccessSession client sessionId then
              Some (srv, sendError (ws client)
                      (''Access denied: You don't have permission to resize session '' @ sessionId) srv)
            else (case pty_resize sessionId (or_num c 0) (or_num r 0) (ptyManager srv) of
                    None \<Rightarrow> None
                  | Some (m, effs) \<Rightarrow> Some (srv\<lparr>ptyManager := m\<rparr>, map PtyDo effs))
          else Some (srv, [])
      | CloseReq sessionId \<Rightarrow>
          if \<not> canAccessSession client sessionId then
            Some (srv, sendError (ws client)
                    (''Access denied: You don't have permission to close session '' @ sessionId) srv)
          else (case closeSession sessionId (ptyManager srv) of
                  (m, effs) \<Rightarrow>
                    Some (storeClient
                            (client\<lparr>sessionSubscriptions := sessionSubscriptions client - {sessionId},
                                    ownedSessions := ownedSessions client - {sessionId}\<rparr>)
                            (srv\<lparr>ptyManager := m,
                                 sessionOwnership := AList.delete sessionId (sessionOwnership srv)\<rparr>),
                          map PtyDo effs))
      | Subscribe sessionId \<Rightarrow>
          if \<not> isLocal client \<and> map_of (sessionOwnership srv) sessionId \<noteq> Some (deviceId client) then
            Some (srv, sendError (ws client)
                    (''Access denied: You don't own session '' @ sessionId) srv)
          else
            let c1 = client\<lparr>sessionSubscriptions := insert sessionId (sessionSubscriptions client)\<rparr>;
                c2 = (if map_of (sessionOwnership srv) sessionId = Some (deviceId client)
                      then c1\<lparr>ownedSessions := insert sessionId (ownedSessions c1)\<rparr> else c1)
            in Some (storeClient c2 srv, [])
      | Unsubscribe sessionId \<Rightarrow>
          Some (storeClient
                  (client\<lparr>sessionSubscriptions := sessionSubscriptions client - {sessionId}\<rparr>) srv,
                [])
      | ListReq \<Rightarrow>
          let accessibleSessions =
                (if isLocal client then getAllSessions (ptyManager srv)
                 else filter (\<lambda>session. sess_id session \<in> ownedSessions client
                                         \<or> sess_id session \<in> sessionSubscriptions client)
                             (getAllSessions (ptyManager srv)))
          in Some (srv, send (ws client)
                          (OutMsg ''pty'' ''list'' (PSessions accessibleSessions) requestId) srv)
      | OtherPty _ \<Rightarrow> Some (srv, []))"

subsection \<open>Service and system frames\<close>

definition handleServiceMessage ::
  "AuthenticatedClient \<Rightarrow> service_request \<Rightarrow> string option \<Rightarrow> env \<Rightarrow> RemoteServer
     \<Rightarrow> RemoteServer \<times> reaction list" where
  "handleServiceMessage client req requestId e srv =
     (case req of
        SvcList \<Rightarrow>
          (case getAllStatuses (env_now e) (serviceManager srv) of
             (statuses, sm) \<Rightarrow>
               (srv\<lparr>serviceManager := sm\<rparr>,
                send (ws client) (OutMsg ''service'' ''list'' (PServiceList statuses) requestId) srv))
      | SvcSubscribe serviceId \<Rightarrow>
          (case getStatus serviceId (env_now e) (serviceManager srv) of
             (None, sm) \<Rightarrow>
               (srv\<lparr>serviceManager := sm\<rparr>,
                sendError (ws client) (''Service '' @ serviceId @ '' not found'') srv)
           | (Some _, sm) \<Rightarrow>
               (storeClient
                  (client\<lparr>serviceSubscriptions := insert serviceId (serviceSubscriptions client)\<rparr>)
                  (srv\<lparr>serviceManager := sm\<rparr>),
                []))
      | SvcUnsubscribe serviceId \<Rightarrow>
          (storeClient
             (client\<lparr>serviceSubscriptions := serviceSubscriptions client - {serviceId}\<rparr>) srv,
           [])
      | OtherSvc _ \<Rightarrow> (srv, []))"

definition handleSystemMessage ::
  "AuthenticatedClient \<Rightarrow> system_request \<Rightarrow> string option \<Rightarrow> env \<Rightarrow> RemoteServer
     \<Rightarrow> RemoteServer \<times> reaction list" where
  "handleSystemMessage client req requestId e srv =
     (case req of
        Ping \<Rightarrow> (srv, send (ws client) (OutMsg ''system'' ''pong'' (PPong (env_now e)) requestId) srv)
      | Info \<Rightarrow> (srv, send (ws client) (OutMsg ''system'' ''info'' PInfo requestId) srv)
      | OtherSys _ \<Rightarrow> (srv, []))"

subsection \<open>Dispatch\<close>

definition handleMessage ::
  "string \<Rightarrow> request \<Rightarrow> string option \<Rightarrow> bool \<Rightarrow> env \<Rightarrow> RemoteServer
     \<Rightarrow> (RemoteServer \<times> reaction list) option" where
  "handleMessage cid req requestId loc e srv =
     (case req of
        Auth payload \<Rightarrow> Some (handleAuth cid payload requestId loc (env_now e) srv)
      | _ \<Rightarrow>
          (case map_of (clients srv) cid of
             None \<Rightarrow> Some (srv, sendError cid ''Not authenticated'' srv)
           | Some client \<Rightarrow>
               (case req of
                  Pty r \<Rightarrow> handlePTYMessage client r requestId e srv
                | Service r \<Rightarrow> Some (handleServiceMessage client r requestId e srv)
                | System r \<Rightarrow> Some (handleSystemMessage client r requestId e srv)
                | UnknownType t \<Rightarrow> Some (srv, sendError cid (''Unknown message type: '' @ t) srv)
                | Auth payload \<Rightarrow> Some (handleAuth cid payload requestId loc (env_now e) srv))))"

text \<open>
  The \<open>message\<close> listener of a connection: \<open>JSON.parse\<close> and \<open>handleMessage\<close> run
  inside one \<open>try\<close>; whatever they throw is answered with an error frame.
\<close>

definition onMessage :: "string \<Rightarrow> frame \<Rightarrow> env \<Rightarrow> RemoteServer \<Rightarrow> RemoteServer \<times> reaction list" where
  "onMessage cid fr e srv =
     (case map_of (connections srv) cid of
        None \<Rightarrow> (srv, [])
      | Some loc \<Rightarrow>
          (case fr of
             Malformed \<Rightarrow> (srv, sendError cid ''Invalid message format'' srv)
           | Frame req requestId \<Rightarrow>
               (case handleMessage cid req requestId loc e srv of
                  None \<Rightarrow> (srv, sendError cid ''Invalid message format'' srv)
                | Some r \<Rightarrow> r)))"

definition onClose :: "string \<Rightarrow> RemoteServer \<Rightarrow> RemoteServer \<times> reaction list" where
  "onClose cid srv =
     (srv\<lparr>clients := AList.delete cid (clients srv),
          connections := AList.delete cid (connections srv),
          openSockets := openSockets srv - {cid}\<rparr>, [])"

subsection \<open>Event forwarding\<close>

text \<open>
  The listeners that \<open>setupPTYForwarding\<close> and \<open>setupServiceForwarding\<close> attach.
  On the exit of a PTY child the pool emits \<open>exit\<close> (the gateway's listener releases
  the ownership and notifies the subscribers) and then removes the session.
\<close>

definition onPtyData :: "string \<Rightarrow> string \<Rightarrow> RemoteServer \<Rightarrow> RemoteServer \<times> reaction list" where
  "onPtyData sessionId d srv =
     (srv, broadcastToSubscribers sessionId
             (OutMsg ''pty'' ''data'' (PData sessionId d) None) srv)"

definition onPtyExit ::
  "string \<Rightarrow> int option \<Rightarrow> int option \<Rightarrow> RemoteServer \<Rightarrow> RemoteServer \<times> reaction list" where
  "onPtyExit sessionId exitCode sig srv =
     (let srv1 = srv\<lparr>sessionOwnership := AList.delete sessionId (sessionOwnership srv)\<rparr>;
          out = broadcastToSubscribers sessionId
                  (OutMsg ''pty'' ''exit'' (PExit sessionId exitCode sig) None) srv1
      in (srv1\<lparr>ptyManager :=
                  (ptyManager srv1)\<lparr>sessions := AList.delete sessionId (sessions (ptyManager srv1))\<rparr>\<rparr>,
          out))"

definition onServiceStatus :: "ServiceStatus \<Rightarrow> RemoteServer \<Rightarrow> RemoteServer \<times> reaction list" where
  "onServiceStatus st srv = (srv, broadcast (OutMsg ''service'' ''status'' (PStatus st) None) srv)"

definition onServiceOutput ::
  "string \<Rightarrow> stream \<Rightarrow> string \<Rightarrow> RemoteServer \<Rightarrow> RemoteServer \<times> reaction list" where
  "onServiceOutput serviceId str d srv =
     (srv, broadcastToServiceSubscribers serviceId
             (OutMsg ''service'' ''output'' (POutput serviceId str d) None) srv)"

subsection \<open>Desktop IPC (setupIPC in src/main/index.ts)\<close>

text \<open>
  \<open>create-session\<close> and \<open>close-session\<close> call the pool directly; the gateway is not
  involved.
\<close>

definition ipcCreateSession :: "create_options \<Rightarrow> env \<Rightarrow> RemoteServer \<Rightarrow> RemoteServer \<times> reaction list" where
  "ipcCreateSession options e srv =
     (case createSession options (env_uuid e) (env_now e) (env_spawnOk e) (ptyManager srv) of
        (None, _, _) \<Rightarrow> (srv, [])
      | (Some session, m, effs) \<Rightarrow> (srv\<lparr>ptyManager := m\<rparr>, map PtyDo effs))"

definition ipcCloseSession :: "string \<Rightarrow> RemoteServer \<Rightarrow> RemoteServer \<times> reaction list" where
  "ipcCloseSession sessionId srv =
     (case closeSession sessionId (ptyManager srv) of
        (m, effs) \<Rightarrow> (srv\<lparr>ptyManager := m\<rparr>, map PtyDo effs))"

subsection \<open>The gateway as a transition system\<close>

datatype event =
    Connect string "string option"
  | Message string frame
  | WsClosed string
  | PtyData string string
  | PtyExited string "int option" "int option"
  | ServiceStatusEvent ServiceStatus
  | ServiceOutputEvent string stream string
  | IpcCreateSession create_options
  | IpcCloseSession string

definition step ::
  "(string \<Rightarrow> jsnum) \<Rightarrow> env \<Rightarrow> event \<Rightarrow> RemoteServer \<Rightarrow> RemoteServer \<times> reaction list" where
  "step N e ev srv =
     (case ev of
        Connect cid ip \<Rightarrow> onConnection N cid ip srv
      | Message cid fr \<Rightarrow> onMessage cid fr e srv
      | WsClosed cid \<Rightarrow> onClose cid srv
      | PtyData sessionId d \<Rightarrow> onPtyData sessionId d srv
      | PtyExited sessionId exitCode sig \<Rightarrow> onPtyExit sessionId exitCode sig srv
      | ServiceStatusEvent st \<Rightarrow> onServiceStatus st srv
      | ServiceOutputEvent serviceId str d \<Rightarrow> onServiceOutput serviceId str d srv
      | IpcCreateSession options \<Rightarrow> ipcCreateSession options e srv
      | IpcCloseSession sessionId \<Rightarrow> ipcCloseSession sessionId srv)"

fun run ::
  "(string \<Rightarrow> jsnum) \<Rightarrow> RemoteServer \<Rightarrow> (env \<times> event) list \<Rightarrow> RemoteServer" where
  "run N srv [] = srv"
| "run N srv (x # xs) = run N (fst (step N (fst x) (snd x) srv)) xs"

text \<open>The state at program start: no client, no session, no ownership entry.\<close>

definition newRemoteServer :: "string \<Rightarrow> bool \<Rightarrow> string \<Rightarrow> string option \<Rightarrow> RemoteServer" where
  "newRemoteServer tok restrict sh home =
     \<lparr>clients = [], authToken = tok, restrictToTailscale = restrict, sessionOwnership = [],
      ptyManager = \<lparr>sessions = [], defaultShell = sh, envHOME = home\<rparr>,
      serviceManager = newServiceManager, connections = [], openSockets = {}\<rparr>"

definition liveSessions :: "RemoteServer \<Rightarrow> string set" where
  "liveSessions srv = sess_id ` set (getAllSessions (ptyManager srv))"

definition owner :: "RemoteServer \<Rightarrow> string \<Rightarrow> string option" where
  "owner srv sessionId = map_of (sessionOwnership srv) sessionId"

definition isIpcCreate :: "event \<Rightarrow> bool" where
  "isIpcCreate ev = (case ev of IpcCreateSession _ \<Rightarrow> True | _ \<Rightarrow> False)"

definition isIpcClose :: "event \<Rightarrow> bool" where
  "isIpcClose ev = (case ev of IpcCloseSession _ \<Rightarrow> True | _ \<Rightarrow> False)"

section \<open>Client SDK (vscode-extension/src/AgentClient.ts)\<close>

text \<open>
  \<open>pendingRequests\<close> is the map from request id to the promise's callbacks; only its
  keys matter here. \<open>requestTimers\<close> are the pending \<open>setTimeout\<close> callbacks of
  \<open>request\<close>, each with its due time and the request id it closed over.
\<close>

record AgentClient =
  pendingRequests :: "string list"
  socketOpen :: bool
  requestTimers :: "(int \<times> string) list"

datatype client_effect =
    SendFrame string string "string option"
  | Resolve string
  | Reject string string

definition newAgentClient :: AgentClient where
  "newAgentClient = \<lparr>pendingRequests = [], socketOpen = True, requestTimers = []\<rparr>"

text \<open>\<open>request(message)\<close> with the id drawn by \<open>uuidv4()\<close> and the time of the call.\<close>

definition request ::
  "string \<times> string \<Rightarrow> string \<Rightarrow> int \<Rightarrow> AgentClient \<Rightarrow> AgentClient \<times> client_effect list" where
  "request message requestId now c =
     (c\<lparr>pendingRequests := (if requestId \<in> set (pendingRequests c) then pendingRequests c
                              else pendingRequests c @ [requestId]),
        requestTimers := requestTimers c @ [(now + 10000, requestId)]\<rparr>,
      if socketOpen c then [SendFrame (fst message) (snd message) (Some requestId)] else [])"

definition requestTimeout ::
  "int \<times> string \<Rightarrow> int \<Rightarrow> AgentClient \<Rightarrow> AgentClient \<times> client_effect list" where
  "requestTimeout t now c =
     (if t \<notin> set (requestTimers c) \<or> now < fst t then (c, [])
      else
        let c1 = c\<lparr>requestTimers := remove1 t (requestTimers c)\<rparr> in
        if snd t \<in> set (pendingRequests c1)
        then (c1\<lparr>pendingRequests := removeAll (snd t) (pendingRequests c1)\<rparr>,
              [Reject (snd t) ''Request timed out''])
        else (c1, []))"

text \<open>The reply branch of the client's \<open>handleMessage\<close>: a frame whose id is pending.\<close>

definition handleReply :: "string \<Rightarrow> AgentClient \<Rightarrow> AgentClient \<times> client_effect list" where
  "handleReply requestId c =
     (if requestId \<noteq> [] \<and> requestId \<in> set (pendingRequests c)
      then (c\<lparr>pendingRequests := removeAll requestId (pendingRequests c)\<rparr>, [Resolve requestId])
      else (c, []))"

section \<open>The origin rule in the specification's words\<close>

text \<open>
  Decimal reading of a string of digits, and the four octets of a dotted quad: four
  non-empty groups of decimal digits separated by dots, each at most 255.
\<close>

definition is_digit :: "char \<Rightarrow> bool" where
  "is_digit c = (c \<in> set ''0123456789'')"

definition dec_value :: "string \<Rightarrow> nat" where
  "dec_value str = foldl (\<lambda>a c. 10 * a + (of_char c - 48)) 0 str"

definition is_octet :: "string \<Rightarrow> bool" where
  "is_octet str = (str \<noteq> [] \<and> list_all is_digit str \<and> dec_value str \<le> 255)"

definition octets :: "string \<Rightarrow> nat list option" where
  "octets q =
     (let groups = split_on CHR ''.'' q
      in if length groups = 4 \<and> list_all is_octet groups then Some (map dec_value groups)
         else None)"

text \<open>
  The rule of the specification: after stripping an optional \<open>::ffff:\<close> prefix, the
  address is admitted iff it is \<open>127.0.0.1\<close> or \<open>::1\<close>, or a dotted quad whose first
  octet is 100 and whose second octet is between 64 and 127.
\<close>

definition spec_stripped :: "string \<Rightarrow> string" where
  "spec_stripped p = (if prefix ''::ffff:'' p then drop 7 p else p)"

definition spec_admitted :: "string \<Rightarrow> bool" where
  "spec_admitted q =
     (q = ''127.0.0.1'' \<or> q = ''::1''
      \<or> (case octets q of
            None \<Rightarrow> False
          | Some os \<Rightarrow> os ! 0 = 100 \<and> 64 \<le> os ! 1 \<and> os ! 1 \<le> 127))"

text \<open>
  The textual addresses a socket reports: an IPv4 dotted quad, an IPv4-mapped IPv6
  address (\<open>::ffff:\<close> before a dotted quad), or another IPv6 text, which has a colon
  before any dot and does not start with \<open>::ffff:\<close>.
\<close>

definition peer_address :: "string \<Rightarrow> bool" where
  "peer_address p =
     (octets p \<noteq> None
      \<or> (prefix ''::ffff:'' p \<and> octets (drop 7 p) \<noteq> None)
      \<or> (\<not> prefix ''::ffff:'' p \<and> CHR '':'' \<in> set (takeWhile (\<lambda>c. c \<noteq> CHR ''.'') p)))"

text \<open>
  What the theorems need of JavaScript's \<open>Number\<close>: a non-empty string of decimal
  digits whose value is below \<open>2^53\<close> converts to that value, exactly; a string with
  a colon in it converts to NaN.
\<close>

definition Number_ok :: "(string \<Rightarrow> jsnum) \<Rightarrow> bool" where
  "Number_ok N =
     ((\<forall>str. str \<noteq> [] \<and> list_all is_digit str \<and> dec_value str < 2 ^ 53
              \<longrightarrow> N str = Fin (real (dec_value str)))
      \<and> (\<forall>str. CHR '':'' \<in> set str \<longrightarrow> N str = NaN))"

text \<open>A conversion with these two properties, for the scenarios below.\<close>

definition decimalNumber :: "string \<Rightarrow> jsnum" where
  "decimalNumber str =
     (if str \<noteq> [] \<and> list_all is_digit str then Fin (real (dec_value str)) else NaN)"

section \<open>Pool and ownership map as sets of keys\<close>

text \<open>
  \<open>sessions_keyed\<close>: every entry of the pool is stored under the id of its session.
  \<open>poolKeys\<close> and \<open>ownedKeys\<close>: the ids in the pool and the ids in the ownership map.
\<close>

definition sessions_keyed :: "RemoteServer \<Rightarrow> bool" where
  "sessions_keyed srv = (\<forall>p \<in> set (sessions (ptyManager srv)). sess_id (snd p) = fst p)"

definition poolKeys :: "RemoteServer \<Rightarrow> string set" where
  "poolKeys srv = fst ` set (sessions (ptyManager srv))"

definition ownedKeys :: "RemoteServer \<Rightarrow> string set" where
  "ownedKeys srv = fst ` set (sessionOwnership srv)"

text \<open>
  A transition from \<open>srv\<close> to \<open>srv'\<close> keeps the keying of the pool and both inclusions
  between the two sets of ids.
\<close>

definition both_inv :: "RemoteServer \<Rightarrow> RemoteServer \<Rightarrow> bool" where
  "both_inv srv srv' =
     ((sessions_keyed srv \<longrightarrow> sessions_keyed srv')
      \<and> (sessions_keyed srv \<and> poolKeys srv \<subseteq> ownedKeys srv \<longrightarrow> poolKeys srv' \<subseteq> ownedKeys srv')
      \<and> (sessions_keyed srv \<and> ownedKeys srv \<subseteq> poolKeys srv \<longrightarrow> ownedKeys srv' \<subseteq> poolKeys srv'))"

section \<open>Concrete scenarios\<close>

subsection \<open>A supervised service\<close>

definition demoConfig :: ServiceConfig where
  "demoConfig =
     \<lparr>svc_id = ''svc'', svc_name = ''Service'', command = ''/usr/bin/env'', args = [''sleep''],
      svc_cwd = None, svc_env = None, autoStart = False, restartOnFailure = True\<rparr>"

text \<open>Registered, then started at time 1000: child 0 with pid 4242.\<close>

definition demoRunning :: ServiceManager where
  "demoRunning =
     fst (startService ''svc'' 1000 (SpawnOk (Some 4242))
            (fst (registerService demoConfig newServiceManager)))"

text \<open>
  The child exits with code 1 at time 2000; \<open>stopService\<close> is called at 3000, inside
  the five seconds of the restart delay; the restart timer fires at 7000.
\<close>

definition demoCrashed :: ServiceManager where
  "demoCrashed = fst (procExit 0 (Some 1) None 2000 demoRunning)"

definition demoStopped :: ServiceManager where
  "demoStopped = fst (stopService ''svc'' 3000 demoCrashed)"

definition demoRespawned :: ServiceManager where
  "demoRespawned =
     fst (fireTimer (7000, RestartTimer ''svc'') 7000 (SpawnOk (Some 4243)) demoStopped)"

text \<open>
  \<open>stopService\<close> is called at 3000 on the running service; its SIGTERM ends the
  child at 3500, with the exit code \<open>null\<close>; the restart timer this exit arms fires
  at 8500.
\<close>

definition demoStopping :: ServiceManager where
  "demoStopping = fst (stopService ''svc'' 3000 demoRunning)"

definition demoTerminated :: ServiceManager where
  "demoTerminated = fst (procExit 0 None (Some ''SIGTERM'') 3500 demoStopping)"

definition demoBackAfterStop :: ServiceManager where
  "demoBackAfterStop =
     fst (fireTimer (8500, RestartTimer ''svc'') 8500 (SpawnOk (Some 4243)) demoTerminated)"

text \<open>
  The running service is queried at 4000, its child exits with code 0 at 5000.
\<close>

definition demoQueried :: ServiceManager where
  "demoQueried = snd (getStatus ''svc'' 4000 demoRunning)"

definition demoExited :: ServiceManager where
  "demoExited = fst (procExit 0 (Some 0) None 5000 demoQueried)"

text \<open>The service record after the crash at 2000.\<close>

definition crashedService :: ManagedService where
  "crashedService =
     \<lparr>config = demoConfig, process = None,
      status = \<lparr>st_id = ''svc'', st_name = ''Service'', st_status = Stopped,
                pid = Some 4242, uptime = None, lastError = None\<rparr>,
      startTime = None\<rparr>"

subsection \<open>A gateway with a remote and a local client\<close>

definition demoServer :: RemoteServer where
  "demoServer = newRemoteServer ''5ec2e7'' True ''/bin/zsh'' (Some ''/Users/me'')"

definition demoEnv :: "string \<Rightarrow> int \<Rightarrow> env" where
  "demoEnv u t = \<lparr>env_now = t, env_uuid = u, env_spawnOk = True\<rparr>"

definition noOptions :: create_options where
  "noOptions =
     \<lparr>opt_name = None, opt_cols = None, opt_rows = None, opt_cwd = None, opt_shell = None,
      opt_env = None\<rparr>"

definition phoneAuth :: AuthPayload where
  "phoneAuth = \<lparr>token = ''5ec2e7'', clientId = ''phone'', payloadDeviceName = ''iPhone''\<rparr>"

definition editorAuth :: AuthPayload where
  "editorAuth = \<lparr>token = ''5ec2e7'', clientId = ''editor'', payloadDeviceName = ''VS Code''\<rparr>"

text \<open>
  A phone connects over Tailscale, authenticates and creates the session \<open>s1\<close>; an
  editor connects from the loopback address, authenticates and creates \<open>s2\<close>.
\<close>

definition demoEvents :: "(env \<times> event) list" where
  "demoEvents =
     [(demoEnv [] 10, Connect ''c1'' (Some ''::ffff:100.101.102.103'')),
      (demoEnv [] 20, Message ''c1'' (Frame (Auth phoneAuth) (Some ''r1''))),
      (demoEnv ''s1'' 30, Message ''c1'' (Frame (Pty (Create noOptions)) (Some ''r2''))),
      (demoEnv [] 40, Connect ''c2'' (Some ''127.0.0.1'')),
      (demoEnv [] 50, Message ''c2'' (Frame (Auth editorAuth) None)),
      (demoEnv ''s2'' 55, Message ''c2'' (Frame (Pty (Create noOptions)) None))]"

definition demoGateway :: RemoteServer where
  "demoGateway = run decimalNumber demoServer demoEvents"

definition demoSession :: PTYSession where
  "demoSession =
     \<lparr>sess_id = ''s1'', sess_name = ''Terminal 1'', cols = 80, rows = 24, cwd = ''/Users/me'',
      shell = ''/bin/zsh'', createdAt = 30\<rparr>"

definition phoneClient :: AuthenticatedClient where
  "phoneClient =
     \<lparr>client_id = ''c1'', ws = ''c1'', deviceId = ''phone'', deviceName = ''iPhone'',
      authenticatedAt = 20, sessionSubscriptions = {''s1''}, ownedSessions = {''s1''},
      serviceSubscriptions = {}, isLocal = False\<rparr>"

definition editorClient :: AuthenticatedClient where
  "editorClient =
     \<lparr>client_id = ''c2'', ws = ''c2'', deviceId = ''editor'', deviceName = ''VS Code'',
      authenticatedAt = 50, sessionSubscriptions = {''s2''}, ownedSessions = {''s2''},
      serviceSubscriptions = {}, isLocal = True\<rparr>"

definition editorSession :: PTYSession where
  "editorSession =
     \<lparr>sess_id = ''s2'', sess_name = ''Terminal 2'', cols = 80, rows = 24, cwd = ''/Users/me'',
      shell = ''/bin/zsh'', createdAt = 55\<rparr>"

text \<open>The phone's connection closes and the phone connects again, as \<open>c3\<close>.\<close>

definition demoReconnecting :: RemoteServer where
  "demoReconnecting =
     run decimalNumber demoGateway
       [(demoEnv [] 60, WsClosed ''c1''),
        (demoEnv [] 70, Connect ''c3'' (Some ''::ffff:100.101.102.103''))]"

text \<open>The desktop creates a session through IPC on a fresh gateway.\<close>

definition demoDesktop :: RemoteServer where
  "demoDesktop = run decimalNumber demoServer [(demoEnv ''s0'' 5, IpcCreateSession noOptions)]"

text \<open>The desktop closes the phone's session \<open>s1\<close> through IPC.\<close>

definition demoDesktopClosed :: RemoteServer where
  "demoDesktopClosed = run decimalNumber demoGateway [(demoEnv [] 60, IpcCloseSession ''s1'')]"

subsection \<open>A client request\<close>

definition demoRequested :: AgentClient where
  "demoRequested = fst (request (''pty'', ''list'') ''q1'' 0 newAgentClient)"

section \<open>Properties of the supervisor\<close>

lemmas supervisor_defs =
  newServiceManager_def registerService_def startService_def procExit_def stopService_def
  fireTimer_def getStatus_def Let_def

lemmas demo_service_defs =
  demoConfig_def demoRunning_def demoCrashed_def demoStopped_def demoRespawned_def
  demoQueried_def demoExited_def crashedService_def demoStopping_def demoTerminated_def
  demoBackAfterStop_def

lemma demoRunning_value:
  "demoRunning =
     \<lparr>services =
        [(''svc'',
          \<lparr>config = demoConfig, process = Some 0,
           status = \<lparr>st_id = ''svc'', st_name = ''Service'', st_status = Running,
                     pid = Some 4242, uptime = None, lastError = None\<rparr>,
           startTime = Some 1000\<rparr>)],
      procs = [(0, ''svc'')], stopWaiters = [], timers = [], nextProc = 1\<rparr>"
  by (simp add: demo_service_defs supervisor_defs)

text \<open>
  Claim C10. Starting a service whose status is \<open>running\<close> is a no-op:
  \<open>startService\<close> returns normally with the supervisor's state unchanged (status,
  startTime and pid included), spawns no child and emits no event.
\<close>

theorem C10_start_running_is_noop:
  "map_of (services s) i = Some service \<Longrightarrow> st_status (status service) = Running
   \<Longrightarrow> startService i now sp s = (s, [], None)"
  by (simp add: startService_def)

theorem C10_start_running_is_noop_witness:
  "startService ''svc'' 2000 (SpawnOk (Some 4243)) demoRunning = (demoRunning, [], None)"
  by (rule C10_start_running_is_noop
        [where service = "\<lparr>config = demoConfig, process = Some 0,
           status = \<lparr>st_id = ''svc'', st_name = ''Service'', st_status = Running,
                     pid = Some 4242, uptime = None, lastError = None\<rparr>,
           startTime = Some 1000\<rparr>"])
     (simp_all add: demoRunning_value)

text \<open>
  Claim C8, at the input where the code departs from it. The service is started at
  1000 and queried at 4000 while it runs (uptime 3000); its child exits at 5000. The
  status returned by a query at 9000 is \<open>stopped\<close> and still carries the uptime 3000:
  \<open>getStatus\<close> wrote it into the service's status object, and neither the exit handler
  nor \<open>getStatus\<close> removes it.
\<close>

theorem C8_uptime_survives_exit:
  "fst (getStatus ''svc'' 9000 demoExited) =
     Some \<lparr>st_id = ''svc'', st_name = ''Service'', st_status = Stopped,
           pid = Some 4242, uptime = Some 3000, lastError = None\<rparr>"
  by (simp add: demo_service_defs supervisor_defs)

text \<open>
  The part of claim C6 that the code keeps: when the child of a service with
  \<open>restartOnFailure\<close> exits with a code other than the number 0, exactly one restart
  timer is added, due 5000 ms after the exit.
\<close>

lemma restart_armed_by_failing_exit:
  "map_of (procs s) h = Some i \<Longrightarrow> map_of (services s) i = Some service
   \<Longrightarrow> restartOnFailure (config service) \<Longrightarrow> code \<noteq> Some 0
   \<Longrightarrow> timers (fst (procExit h code sig now s)) = timers s @ [(now + 5000, RestartTimer i)]"
  by (simp add: procExit_def Let_def)

text \<open>
  Claim C6, at the inputs where the code departs from it. First: the child exits with
  code 1 at 2000 and \<open>stopService\<close> is called at 3000, inside the restart delay; the
  service has no process, so the call returns at once, the restart timer due at 7000
  is still pending, fires, and the service runs again with child 1. Second:
  \<open>stopService\<close> is called at 3000 on the running service and sends SIGTERM; the child
  ends at 3500 with the exit code \<open>null\<close>, which is not the number 0, so the exit
  handler arms a restart for 8500 next to the pending SIGKILL timer; the stop resolves,
  the service is stopped, and at 8500 it runs again with child 1.
\<close>

theorem C6_stop_does_not_cancel_restart:
  "stopService ''svc'' 3000 demoCrashed = (demoCrashed, [Resolved ''svc''])
   \<and> timers demoStopped = [(7000, RestartTimer ''svc'')]
   \<and> map_of (services demoRespawned) ''svc''
       = Some (crashedService\<lparr>process := Some 1, startTime := Some 7000,
                 status := (status crashedService)\<lparr>st_status := Running, pid := Some 4243\<rparr>\<rparr>)
   \<and> snd (stopService ''svc'' 3000 demoRunning) = [KillChild 0 SIGTERM]
   \<and> snd (procExit 0 None (Some ''SIGTERM'') 3500 demoStopping)
       = [EmitStatus (status crashedService), EmitExit ''svc'' None (Some ''SIGTERM''),
          EmitStatus (status crashedService), Resolved ''svc'']
   \<and> map_of (services demoTerminated) ''svc'' = Some crashedService
   \<and> timers demoTerminated = [(13000, KillTimer ''svc'' 0), (8500, RestartTimer ''svc'')]
   \<and> map_of (services demoBackAfterStop) ''svc''
       = Some (crashedService\<lparr>process := Some 1, startTime := Some 8500,
                 status := (status crashedService)\<lparr>st_status := Running, pid := Some 4243\<rparr>\<rparr>)"
  by (simp add: demo_service_defs supervisor_defs)

section \<open>Properties of the gateway\<close>

lemmas pool_defs =
  createSession_def pty_write_def pty_resize_def closeSession_def getAllSessions_def
  or_str_def or_num_def truthy_str_def truthy_num_def isValidShell_def isValidCwd_def
  ALLOWED_SHELLS_def startsWith_def decimal.simps

lemmas origin_defs =
  originRejected_def onConnection_def normalizeIP_def isInTailscaleRange_def startsWith_def
  num_eq_def num_ge_def num_le_def decimalNumber_def is_digit_def dec_value_def

lemmas gateway_defs =
  step_def onMessage_def handleMessage_def handleAuth_def handlePTYMessage_def
  handleServiceMessage_def handleSystemMessage_def onClose_def onPtyData_def onPtyExit_def
  onServiceStatus_def onServiceOutput_def ipcCreateSession_def ipcCloseSession_def
  send_def sendError_def broadcast_def broadcastToSubscribers_def
  broadcastToServiceSubscribers_def storeClient_def canAccessSession_def getAllStatuses_def
  newRemoteServer_def newServiceManager_def

lemmas demo_gateway_defs =
  demoServer_def demoEnv_def noOptions_def phoneAuth_def editorAuth_def demoEvents_def
  demoGateway_def demoSession_def editorSession_def phoneClient_def editorClient_def
  demoReconnecting_def demoDesktop_def demoDesktopClosed_def

subsection \<open>The token comparison decides equality and reads a fixed number of bytes\<close>

lemma xor_zero_iff_byte: "(a XOR b = 0) = (a = (b::8 word))"
  by (metis xor.left_neutral xor.assoc xor_self_eq xor.right_neutral)

lemma fold_diff_count:
  "length a = length b \<Longrightarrow> snd (fold_diff acc n a b) = n + length a"
  by (induction a b arbitrary: acc n rule: list_induct2) simp_all

lemma fold_diff_zero:
  "length a = length b \<Longrightarrow> (fst (fold_diff acc n a b) = 0) = (acc = 0 \<and> a = b)"
  by (induction a b arbitrary: acc n rule: list_induct2)
     (auto simp: or_eq_0_iff xor_zero_iff_byte)

lemma byte_of_char_inj: "((of_nat (of_char c) :: 8 word) = of_nat (of_char d)) = (c = d)"
proof -
  have "unat (of_nat (of_char c :: nat) :: 8 word) = of_char c" for c
    by (simp add: unat_of_nat take_bit_eq_mod)
  then show ?thesis
    by (metis of_char_eq_iff)
qed

lemma Buffer_from_inj: "(Buffer_from a = Buffer_from b) = (a = b)"
  unfolding Buffer_from_def
  by (rule inj_map_eq_map) (simp add: inj_def byte_of_char_inj)

lemma tokenAccepted_value:
  "tokenAccepted tb pb = (tb = pb, if length tb = length pb then length tb else 0)"
proof (cases "length tb = length pb")
  case True
  then show ?thesis
    using fold_diff_count[OF True, of 0 0] fold_diff_zero[OF True, of 0 0]
    by (auto simp: tokenAccepted_def timingSafeEqual_def split: prod.splits)
next
  case False
  then show ?thesis by (auto simp: tokenAccepted_def)
qed

subsection \<open>The scenarios, evaluated\<close>

lemma demoGateway_value:
  "demoGateway =
     \<lparr>clients = [(''c1'', phoneClient), (''c2'', editorClient)],
      authToken = ''5ec2e7'', restrictToTailscale = True,
      sessionOwnership = [(''s1'', ''phone''), (''s2'', ''editor'')],
      ptyManager = \<lparr>sessions = [(''s1'', demoSession), (''s2'', editorSession)],
                    defaultShell = ''/bin/zsh'', envHOME = Some ''/Users/me''\<rparr>,
      serviceManager = newServiceManager,
      connections = [(''c1'', False), (''c2'', True)],
      openSockets = {''c2'', ''c1''}\<rparr>"
  by (simp add: demo_gateway_defs gateway_defs origin_defs pool_defs tokenAccepted_value
        Buffer_from_inj Let_def)

lemma demoReconnecting_value:
  "demoReconnecting =
     \<lparr>clients = [(''c2'', editorClient)],
      authToken = ''5ec2e7'', restrictToTailscale = True,
      sessionOwnership = [(''s1'', ''phone''), (''s2'', ''editor'')],
      ptyManager = \<lparr>sessions = [(''s1'', demoSession), (''s2'', editorSession)],
                    defaultShell = ''/bin/zsh'', envHOME = Some ''/Users/me''\<rparr>,
      serviceManager = newServiceManager,
      connections = [(''c2'', True), (''c3'', False)],
      openSockets = {''c3'', ''c2''}\<rparr>"
  unfolding demoReconnecting_def demoGateway_value
  by (auto simp: demoEnv_def step_def onClose_def origin_defs Let_def)

subsection \<open>Authentication\<close>

text \<open>
  Claim C1. The guard of \<open>handleAuth\<close> rejects two buffers of different lengths
  without reading a byte; the number of byte pairs it reads depends on the two lengths
  alone, never on the contents (constant time, counted in bytes read); it accepts
  exactly the equal buffers; and whenever the presented token differs from the stored
  one, \<open>handleAuth\<close> does nothing but close the socket with code 4003 and the reason
  \<open>Invalid authentication token\<close>.
\<close>

theorem C1_token_check_and_close_4003:
  "(length tb \<noteq> length pb \<longrightarrow> tokenAccepted tb pb = (False, 0))
   \<and> (length tb = length tb' \<and> length pb = length pb'
        \<longrightarrow> snd (tokenAccepted tb pb) = snd (tokenAccepted tb' pb'))
   \<and> fst (tokenAccepted tb pb) = (tb = pb)
   \<and> (token payload \<noteq> authToken srv
        \<longrightarrow> handleAuth cid payload rid loc now srv
            = (srv\<lparr>openSockets := openSockets srv - {cid}\<rparr>,
               [Close cid 4003 ''Invalid authentication token'']))"
  by (auto simp: tokenAccepted_value handleAuth_def Buffer_from_inj Let_def)

theorem C1_token_check_and_close_4003_witness:
  "length (Buffer_from ''5ec2e7'') \<noteq> length (Buffer_from ''5ec2e'')
   \<and> tokenAccepted (Buffer_from ''5ec2e7'') (Buffer_from ''5ec2e'') = (False, 0)
   \<and> snd (tokenAccepted (Buffer_from ''5ec2e7'') (Buffer_from ''5ec2e8''))
       = snd (tokenAccepted (Buffer_from ''5ec2e7'') (Buffer_from ''5ec2e7''))
   \<and> token (phoneAuth\<lparr>token := ''5ec2e8''\<rparr>) \<noteq> authToken demoReconnecting
   \<and> handleAuth ''c3'' (phoneAuth\<lparr>token := ''5ec2e8''\<rparr>) None False 80 demoReconnecting
       = (demoReconnecting\<lparr>openSockets := openSockets demoReconnecting - {''c3''}\<rparr>,
          [Close ''c3'' 4003 ''Invalid authentication token''])"
  using C1_token_check_and_close_4003
          [where tb = "Buffer_from ''5ec2e7''" and pb = "Buffer_from ''5ec2e''"
             and payload = "phoneAuth\<lparr>token := ''5ec2e8''\<rparr>" and srv = demoReconnecting
             and cid = "''c3''" and rid = None and loc = False and now = 80]
        C1_token_check_and_close_4003
          [where tb = "Buffer_from ''5ec2e7''" and pb = "Buffer_from ''5ec2e8''"
             and tb' = "Buffer_from ''5ec2e7''" and pb' = "Buffer_from ''5ec2e7''"]
  by (simp add: Buffer_from_def demoReconnecting_value phoneAuth_def)

lemma owned_by_device:
  "distinct (map fst xs) \<Longrightarrow> fst ` {x \<in> set xs. snd x = D} = {k. map_of xs k = Some D}"
  by (force simp: image_iff)

text \<open>
  Claim C3. After a successful authentication that presents the (non-empty) device id
  \<open>D\<close>, the new client's \<open>ownedSessions\<close> is exactly the set of session ids that the
  ownership map sends to \<open>D\<close>, its \<open>sessionSubscriptions\<close> is that same set, and the
  \<open>auth/success\<close> reply lists every live session for a local client and exactly the
  live sessions owned by \<open>D\<close> for a remote one. The ownership map, a \<open>Map\<close>, has no key
  twice.
\<close>

theorem C3_auth_restores_owned_sessions:
  assumes "token payload = authToken srv" and "clientId payload \<noteq> []"
    and "distinct (map fst (sessionOwnership srv))"
  shows "\<exists>client.
      map_of (clients (fst (handleAuth cid payload rid loc now srv))) cid = Some client
    \<and> deviceId client = clientId payload
    \<and> isLocal client = loc
    \<and> ownedSessions client = {sid. owner srv sid = Some (clientId payload)}
    \<and> sessionSubscriptions client = {sid. owner srv sid = Some (clientId payload)}
    \<and> snd (handleAuth cid payload rid loc now srv)
        = send cid
            (OutMsg ''auth'' ''success''
               (PAuthSuccess cid
                  (if loc then getAllSessions (ptyManager srv)
                   else filter (\<lambda>s. owner srv (sess_id s) = Some (clientId payload))
                          (getAllSessions (ptyManager srv)))
                  (fst (getAllStatuses now (serviceManager srv))))
               rid) srv"
  using assms
  by (simp add: handleAuth_def tokenAccepted_value Let_def owned_by_device owner_def
        update_conv' or_str_def case_prod_beta send_def)

theorem C3_auth_restores_owned_sessions_witness:
  "token phoneAuth = authToken demoReconnecting
   \<and> clientId phoneAuth = ''phone''
   \<and> distinct (map fst (sessionOwnership demoReconnecting))
   \<and> map_of (clients (fst (handleAuth ''c3'' phoneAuth (Some ''r3'') False 80 demoReconnecting)))
        ''c3''
       = Some (phoneClient\<lparr>client_id := ''c3'', ws := ''c3'', authenticatedAt := 80\<rparr>)
   \<and> snd (handleAuth ''c3'' phoneAuth (Some ''r3'') False 80 demoReconnecting)
       = [Send ''c3'' (OutMsg ''auth'' ''success'' (PAuthSuccess ''c3'' [demoSession] [])
                        (Some ''r3''))]
   \<and> snd (handleAuth ''c2'' editorAuth None True 80 demoReconnecting)
       = [Send ''c2'' (OutMsg ''auth'' ''success''
                        (PAuthSuccess ''c2'' [demoSession, editorSession] []) None)]"
  using C3_auth_restores_owned_sessions
          [where payload = phoneAuth and srv = demoReconnecting and cid = "''c3''"
             and rid = "Some ''r3''" and loc = False and now = 80]
        C3_auth_restores_owned_sessions
          [where payload = editorAuth and srv = demoReconnecting and cid = "''c2''"
             and rid = None and loc = True and now = 80]
  by (simp add: demoReconnecting_value phoneAuth_def editorAuth_def phoneClient_def owner_def
        send_def getAllSessions_def getAllStatuses_def newServiceManager_def demoSession_def
        editorSession_def handleAuth_def tokenAccepted_value Buffer_from_inj Let_def or_str_def)

subsection \<open>Frames that name a session that is not live\<close>

text \<open>
  Claim C5 as stated fails twice in the scenario. \<open>gone\<close> is not a live session. The
  phone, a remote client that neither owns nor is subscribed to \<open>gone\<close>, writes to it and
  is sent an error frame; the editor, a local client, subscribes to it and is sent
  nothing, while \<open>gone\<close> enters its subscription set.
\<close>

theorem C5_unknown_session_not_as_claimed:
  "map_of (sessions (ptyManager demoGateway)) ''gone'' = None
   \<and> onMessage ''c1'' (Frame (Pty (Write ''gone'' ''ls'')) None) (demoEnv [] 90) demoGateway
       = (demoGateway,
          [Send ''c1'' (OutMsg ''system'' ''error''
             (PError ''Access denied: You don't have permission to write to session gone'') None)])
   \<and> onMessage ''c2'' (Frame (Pty (Subscribe ''gone'')) None) (demoEnv [] 90) demoGateway
       = (demoGateway\<lparr>clients :=
            [(''c1'', phoneClient),
             (''c2'', editorClient\<lparr>sessionSubscriptions := {''gone'', ''s2''}\<rparr>)]\<rparr>, [])"
  by (simp add: demoGateway_value onMessage_def handleMessage_def handlePTYMessage_def
       canAccessSession_def phoneClient_def editorClient_def sendError_def send_def storeClient_def)

text \<open>
  Claim C5, amended. For a session id that is not live: a write or resize frame naming
  it is a silent no-op (no frame sent, no change of state) when the client may access
  the id (it is local, or the id is in its owned or subscription set); when it may not,
  the write, and the resize that carries a session id and non-zero cols and rows, is
  answered with an \<open>Access denied\<close> error frame and changes no state. A subscribe frame
  naming it is answered with an error frame and changes no state when the client is
  remote and the ownership map does not send the id to the client's device; a local
  client is subscribed to it and is sent nothing.
\<close>

theorem C5_frames_naming_a_dead_session:
  assumes "map_of (sessions (ptyManager srv)) sid = None"
  shows
   "(canAccessSession client sid \<longrightarrow>
       handlePTYMessage client (Write sid d) rid e srv = Some (srv, [])
     \<and> handlePTYMessage client (Resize sid c r) rid e srv = Some (srv, []))
  \<and> (\<not> canAccessSession client sid \<longrightarrow>
       handlePTYMessage client (Write sid d) rid e srv
         = Some (srv, sendError (ws client)
                   (''Access denied: You don't have permission to write to session '' @ sid) srv)
     \<and> handlePTYMessage client (Resize sid c r) rid e srv
         = Some (srv, if sid \<noteq> [] \<and> truthy_num c \<and> truthy_num r
                      then sendError (ws client)
                        (''Access denied: You don't have permission to resize session '' @ sid) srv
                      else []))
  \<and> (\<not> isLocal client \<and> owner srv sid \<noteq> Some (deviceId client) \<longrightarrow>
       handlePTYMessage client (Subscribe sid) rid e srv
         = Some (srv, sendError (ws client) (''Access denied: You don't own session '' @ sid) srv))
  \<and> (isLocal client \<longrightarrow>
       handlePTYMessage client (Subscribe sid) rid e srv
         = Some (storeClient
                   (if owner srv sid = Some (deviceId client)
                    then client\<lparr>sessionSubscriptions := insert sid (sessionSubscriptions client),
                                ownedSessions := insert sid (ownedSessions client)\<rparr>
                    else client\<lparr>sessionSubscriptions := insert sid (sessionSubscriptions client)\<rparr>)
                   srv, []))"
  using assms
  by (simp add: handlePTYMessage_def pty_write_def pty_resize_def owner_def Let_def)

theorem C5_frames_naming_a_dead_session_witness:
  "map_of (sessions (ptyManager demoGateway)) ''gone'' = None
   \<and> canAccessSession editorClient ''gone''
   \<and> handlePTYMessage editorClient (Write ''gone'' ''ls'') None (demoEnv [] 90) demoGateway
       = Some (demoGateway, [])
   \<and> handlePTYMessage editorClient (Resize ''gone'' (Some 80) (Some 24)) None (demoEnv [] 90) demoGateway
       = Some (demoGateway, [])
   \<and> \<not> canAccessSession phoneClient ''gone''
   \<and> handlePTYMessage phoneClient (Resize ''gone'' (Some 80) (Some 24)) None (demoEnv [] 90) demoGateway
       = Some (demoGateway,
           [Send ''c1'' (OutMsg ''system'' ''error''
             (PError ''Access denied: You don't have permission to resize session gone'') None)])
   \<and> owner demoGateway ''gone'' \<noteq> Some (deviceId phoneClient)
   \<and> handlePTYMessage phoneClient (Subscribe ''gone'') None (demoEnv [] 90) demoGateway
       = Some (demoGateway,
           [Send ''c1'' (OutMsg ''system'' ''error''
             (PError ''Access denied: You don't own session gone'') None)])"
  using C5_frames_naming_a_dead_session
          [where srv = demoGateway and sid = "''gone''" and client = editorClient and d = "''ls''"
            and c = "Some 80" and r = "Some 24" and rid = None and e = "demoEnv [] 90"]
        C5_frames_naming_a_dead_session
          [where srv = demoGateway and sid = "''gone''" and client = phoneClient and d = "''ls''"
            and c = "Some 80" and r = "Some 24" and rid = None and e = "demoEnv [] 90"]
  by (simp add: demoGateway_value canAccessSession_def phoneClient_def editorClient_def
        owner_def sendError_def send_def truthy_num_def)

subsection \<open>Fan-out\<close>

lemma concat_map_if:
  "concat (map (\<lambda>c. if P c then [f c] else []) xs) = map f (filter P xs)"
  by (induction xs) simp_all

text \<open>
  Claim C7. A PTY data event is sent to exactly the clients whose
  \<open>sessionSubscriptions\<close> contains the session id, a service status event to every
  authenticated client whatever its subscriptions, a service output event to exactly the
  clients whose \<open>serviceSubscriptions\<close> contains the service id; each once, in the
  order of the client map, and (as \<open>send\<close> has it) only on a socket that is open. None
  of the three changes the gateway's state.
\<close>

theorem C7_fan_out_by_subscription:
  "onPtyData sid d srv
     = (srv, map (\<lambda>c. Send (ws c) (OutMsg ''pty'' ''data'' (PData sid d) None))
               (filter (\<lambda>c. sid \<in> sessionSubscriptions c \<and> ws c \<in> openSockets srv)
                  (map snd (clients srv))))
   \<and> onServiceStatus st srv
     = (srv, map (\<lambda>c. Send (ws c) (OutMsg ''service'' ''status'' (PStatus st) None))
               (filter (\<lambda>c. ws c \<in> openSockets srv) (map snd (clients srv))))
   \<and> onServiceOutput i str d' srv
     = (srv, map (\<lambda>c. Send (ws c) (OutMsg ''service'' ''output'' (POutput i str d') None))
               (filter (\<lambda>c. i \<in> serviceSubscriptions c \<and> ws c \<in> openSockets srv)
                  (map snd (clients srv))))"
proof -
  have a: "(\<lambda>c. if x \<in> S c then send (ws c) m srv else [])
           = (\<lambda>c. if x \<in> S c \<and> ws c \<in> openSockets srv then [Send (ws c) m] else [])"
    for x :: string and S m
    by (auto simp: send_def)
  have b: "(\<lambda>c. send (ws c) m srv) = (\<lambda>c. if ws c \<in> openSockets srv then [Send (ws c) m] else [])"
    for m
    by (auto simp: send_def)
  show ?thesis
    unfolding onPtyData_def onServiceStatus_def onServiceOutput_def broadcast_def
      broadcastToSubscribers_def broadcastToServiceSubscribers_def a b concat_map_if
    by simp
qed

subsection \<open>Origin filter\<close>

lemma split_on_nonempty: "split_on sep str \<noteq> []"
  by (induction str) (auto split: list.splits)

lemma hd_split_on: "hd (split_on sep str) = takeWhile (\<lambda>c. c \<noteq> sep) str"
  by (induction str) (auto split: list.splits simp: split_on_nonempty)

lemma Number_ok_octet: "Number_ok N \<Longrightarrow> is_octet a \<Longrightarrow> N a = Fin (real (dec_value a))"
proof -
  assume n: "Number_ok N" and o: "is_octet a"
  then have "dec_value a < 2 ^ 53" by (simp add: is_octet_def)
  with n o show ?thesis by (simp add: Number_ok_def is_octet_def)
qed

lemma Number_ok_colon: "Number_ok N \<Longrightarrow> CHR '':'' \<in> set a \<Longrightarrow> N a = NaN"
  by (simp add: Number_ok_def)

lemma colon_not_digit: "\<not> is_digit CHR '':''"
  by (simp add: is_digit_def)

lemma colon_not_all_digits: "CHR '':'' \<in> set a \<Longrightarrow> \<not> list_all is_digit a"
  using colon_not_digit by (auto simp: list_all_iff)

lemma Number_ok_decimalNumber: "Number_ok decimalNumber"
  by (simp add: Number_ok_def decimalNumber_def colon_not_all_digits)

lemma octets_groups:
  "octets q = Some os \<Longrightarrow>
   \<exists>a b c d. split_on CHR ''.'' q = [a, b, c, d] \<and> is_octet a \<and> is_octet b \<and> is_octet c
      \<and> is_octet d \<and> os = [dec_value a, dec_value b, dec_value c, dec_value d]"
proof -
  assume h: "octets q = Some os"
  then have l: "length (split_on CHR ''.'' q) = 4" and a: "list_all is_octet (split_on CHR ''.'' q)"
    and o: "os = map dec_value (split_on CHR ''.'' q)"
    by (auto simp: octets_def Let_def split: if_splits)
  from l obtain a b c d where "split_on CHR ''.'' q = [a, b, c, d]"
    by (auto simp: length_Suc_conv numeral_eq_Suc)
  with a o show ?thesis by simp
qed

lemma octets_starts_with_digit:
  "octets q = Some os \<Longrightarrow> q \<noteq> [] \<and> is_digit (hd q)"
proof -
  assume "octets q = Some os"
  from octets_groups[OF this] obtain a b c d where
    s: "split_on CHR ''.'' q = [a, b, c, d]" and a: "is_octet a" by blast
  from s have "a = takeWhile (\<lambda>c. c \<noteq> CHR ''.'') q"
    using hd_split_on[of "CHR ''.''" q] by simp
  with a have t: "takeWhile (\<lambda>c. c \<noteq> CHR ''.'') q \<noteq> []"
    and d: "list_all is_digit (takeWhile (\<lambda>c. c \<noteq> CHR ''.'') q)"
    by (simp_all add: is_octet_def)
  from t have "q \<noteq> []" by auto
  moreover from t d have "is_digit (hd q)"
    by (cases q) (auto split: if_splits)
  ultimately show ?thesis by simp
qed

lemma octets_not_mapped:
  "octets q = Some os \<Longrightarrow> normalizeIP q = q \<and> spec_stripped q = q \<and> q \<noteq> ''::1''"
proof -
  assume "octets q = Some os"
  from octets_starts_with_digit[OF this] have "q \<noteq> []" "is_digit (hd q)" by simp_all
  then have "hd q \<noteq> CHR '':''" using colon_not_digit by auto
  with \<open>q \<noteq> []\<close> show ?thesis
    by (cases q) (auto simp: normalizeIP_def spec_stripped_def startsWith_def)
qed

lemma range_of_octets:
  assumes "Number_ok N" and "octets q = Some os"
  shows "isInTailscaleRange N q = (os ! 0 = 100 \<and> 64 \<le> os ! 1 \<and> os ! 1 \<le> 127)"
proof -
  from octets_groups[OF assms(2)] obtain a b c d where
    s: "split_on CHR ''.'' q = [a, b, c, d]" and o: "is_octet a" "is_octet b"
    and os: "os = [dec_value a, dec_value b, dec_value c, dec_value d]" by blast
  from octets_not_mapped[OF assms(2)] have n: "normalizeIP q = q" by simp
  show ?thesis
    using Number_ok_octet[OF assms(1) o(1)] Number_ok_octet[OF assms(1) o(2)]
    by (simp add: isInTailscaleRange_def n s os num_eq_def num_ge_def num_le_def)
qed

lemma rejected_of_octets:
  assumes "Number_ok N" and "octets q = Some os"
  shows "originRejected N True (Some q) = (\<not> spec_admitted q)"
proof -
  from octets_starts_with_digit[OF assms(2)] have "q \<noteq> []" by simp
  with octets_not_mapped[OF assms(2)] range_of_octets[OF assms] assms(2) show ?thesis
    by (simp add: originRejected_def spec_admitted_def Let_def)
qed

lemma colon_first_group:
  assumes "Number_ok N" and "CHR '':'' \<in> set (takeWhile (\<lambda>c. c \<noteq> CHR ''.'') p)"
  shows "octets p = None" and "normalizeIP p = p \<Longrightarrow> \<not> isInTailscaleRange N p"
proof -
  let ?g = "split_on CHR ''.'' p"
  have h: "hd ?g = takeWhile (\<lambda>c. c \<noteq> CHR ''.'') p" by (rule hd_split_on)
  have ne: "?g \<noteq> []" by (rule split_on_nonempty)
  have "\<not> is_octet (hd ?g)"
    using assms(2) h colon_not_all_digits by (simp add: is_octet_def)
  with ne have "\<not> list_all is_octet ?g" by (cases ?g) auto
  then show "octets p = None" by (simp add: octets_def Let_def)
  assume n: "normalizeIP p = p"
  have "N (hd ?g) = NaN" using Number_ok_colon[OF assms(1)] assms(2) h by simp
  with ne have "length ?g = 4 \<Longrightarrow> map N ?g ! 0 = NaN"
    by (cases ?g) auto
  then show "\<not> isInTailscaleRange N p"
    by (auto simp: isInTailscaleRange_def n Let_def num_eq_def)
qed

lemma origin_rule:
  assumes "Number_ok N" and "peer_address p"
  shows "originRejected N True (Some p) = (\<not> spec_admitted (spec_stripped p))"
proof -
  from assms(2) consider
      (v4) os where "octets p = Some os"
    | (mapped) os where "prefix ''::ffff:'' p" "octets (drop 7 p) = Some os"
    | (v6) "\<not> prefix ''::ffff:'' p" "CHR '':'' \<in> set (takeWhile (\<lambda>c. c \<noteq> CHR ''.'') p)"
    by (auto simp: peer_address_def)
  then show ?thesis
  proof cases
    case v4
    with rejected_of_octets[OF assms(1) v4] octets_not_mapped[OF v4] show ?thesis by simp
  next
    case mapped
    let ?q = "drop 7 p"
    from mapped(1) have p: "p \<noteq> []" "normalizeIP p = ?q" "spec_stripped p = ?q"
      by (auto simp: normalizeIP_def spec_stripped_def startsWith_def)
    from octets_starts_with_digit[OF mapped(2)] have q: "?q \<noteq> []" by simp
    from rejected_of_octets[OF assms(1) mapped(2)] q octets_not_mapped[OF mapped(2)]
    have "(\<not> (?q = ''127.0.0.1'' \<or> ?q = ''::1'') \<and> \<not> isInTailscaleRange N ?q)
            = (\<not> spec_admitted ?q)"
      by (simp add: originRejected_def Let_def)
    with p show ?thesis
      by (simp add: originRejected_def Let_def)
  next
    case v6
    from v6(1) have n: "normalizeIP p = p" "spec_stripped p = p"
      by (simp_all add: normalizeIP_def spec_stripped_def startsWith_def)
    from v6(2) have "p \<noteq> []" by auto
    with colon_first_group[OF assms(1) v6(2)] n show ?thesis
      by (simp add: originRejected_def spec_admitted_def Let_def)
  qed
qed


lemmas spec_origin_defs =
  peer_address_def spec_admitted_def spec_stripped_def octets_def is_octet_def is_digit_def
  dec_value_def Let_def

text \<open>
  Claim C2. With \<open>restrictToTailscale\<close> set, a connection whose peer address is \<open>p\<close> is
  rejected exactly when \<open>p\<close>, stripped of an optional \<open>::ffff:\<close> prefix, is neither
  \<open>127.0.0.1\<close> nor \<open>::1\<close> nor a dotted quad with first octet 100 and second octet
  from 64 to 127. A rejected connection is closed with code 4000 and gets no listener,
  so no frame of it is ever processed; an admitted one gets its listener and is sent
  nothing. \<open>100.63.255.255\<close> and \<open>100.128.0.0\<close> are rejected, \<open>100.64.0.0\<close> and
  \<open>100.127.255.255\<close> are admitted. Without \<open>restrictToTailscale\<close> nothing is
  rejected. \<open>p\<close> ranges over the textual addresses a socket reports, and \<open>N\<close> over the
  conversions that agree with \<open>Number\<close> on digit strings and on strings with a colon.
\<close>

theorem C2_origin_filter:
  assumes "Number_ok N"
  shows
   "(peer_address p \<longrightarrow> originRejected N True (Some p) = (\<not> spec_admitted (spec_stripped p)))
    \<and> (originRejected N (restrictToTailscale srv) ip \<longrightarrow>
          onConnection N cid ip srv
            = (srv, [Close cid 4000 ''Connection not allowed from this address'']))
    \<and> (\<not> originRejected N (restrictToTailscale srv) ip \<longrightarrow>
          snd (onConnection N cid ip srv) = []
          \<and> cid \<in> fst ` set (connections (fst (onConnection N cid ip srv)))
          \<and> cid \<in> openSockets (fst (onConnection N cid ip srv)))
    \<and> (map_of (connections srv) cid = None \<longrightarrow> onMessage cid fr e srv = (srv, []))
    \<and> originRejected N True (Some ''100.63.255.255'')
    \<and> originRejected N True (Some ''100.128.0.0'')
    \<and> \<not> originRejected N True (Some ''100.64.0.0'')
    \<and> \<not> originRejected N True (Some ''100.127.255.255'')
    \<and> \<not> originRejected N False ip'"
proof -
  have a: "peer_address ''100.63.255.255''" "peer_address ''100.128.0.0''"
    "peer_address ''100.64.0.0''" "peer_address ''100.127.255.255''"
    by (simp_all add: spec_origin_defs)
  have b: "\<not> spec_admitted (spec_stripped ''100.63.255.255'')"
    "\<not> spec_admitted (spec_stripped ''100.128.0.0'')"
    "spec_admitted (spec_stripped ''100.64.0.0'')"
    "spec_admitted (spec_stripped ''100.127.255.255'')"
    by (simp_all add: spec_origin_defs)
  have c: "\<not> originRejected N False ip'"
    by (simp add: originRejected_def split: option.splits)
  show ?thesis
    using origin_rule[OF assms] a b c
    by (simp add: onConnection_def onMessage_def dom_update Let_def)
qed


theorem C2_origin_filter_witness:
  "Number_ok decimalNumber
   \<and> peer_address ''192.0.2.1''
   \<and> originRejected decimalNumber True (Some ''192.0.2.1'')
   \<and> onConnection decimalNumber ''c9'' (Some ''192.0.2.1'') demoServer
       = (demoServer, [Close ''c9'' 4000 ''Connection not allowed from this address''])
   \<and> onMessage ''c9'' (Frame (Auth phoneAuth) None) (demoEnv [] 1) demoServer = (demoServer, [])
   \<and> peer_address ''::ffff:100.101.102.103''
   \<and> spec_admitted (spec_stripped ''::ffff:100.101.102.103'')
   \<and> snd (onConnection decimalNumber ''c1'' (Some ''::ffff:100.101.102.103'') demoServer) = []
   \<and> connections (fst (onConnection decimalNumber ''c1'' (Some ''::ffff:100.101.102.103'') demoServer))
       = [(''c1'', False)]"
  using C2_origin_filter[OF Number_ok_decimalNumber, where p = "''192.0.2.1''" and srv = demoServer
          and ip = "Some ''192.0.2.1''" and cid = "''c9''" and fr = "Frame (Auth phoneAuth) None"
          and e = "demoEnv [] 1"]
        C2_origin_filter[OF Number_ok_decimalNumber, where p = "''::ffff:100.101.102.103''" and srv = demoServer
          and ip = "Some ''::ffff:100.101.102.103''" and cid = "''c1''"]
  by (simp add: Number_ok_decimalNumber spec_origin_defs demoServer_def newRemoteServer_def
        origin_defs onMessage_def)

subsection \<open>Pool and ownership map\<close>

lemma keys_delete: "fst ` set (AList.delete k al) = fst ` set al - {k}"
  by (induction al) auto

lemma keyed_update:
  "\<forall>p\<in>set xs. sess_id (snd p) = fst p \<Longrightarrow> sess_id v = k
   \<Longrightarrow> \<forall>p\<in>set (AList.update k v xs). sess_id (snd p) = fst p"
  by (induction xs) auto

lemma keyed_delete:
  "\<forall>p\<in>set xs. sess_id (snd p) = fst p
   \<Longrightarrow> \<forall>p\<in>set (AList.delete k xs). sess_id (snd p) = fst p"
  by (induction xs) auto

lemma liveSessions_keys: "sessions_keyed srv \<Longrightarrow> liveSessions srv = poolKeys srv"
  by (force simp: sessions_keyed_def liveSessions_def poolKeys_def getAllSessions_def image_iff)

lemma owner_keys: "(owner srv sid \<noteq> None) = (sid \<in> ownedKeys srv)"
  by (simp add: owner_def ownedKeys_def map_of_eq_None_iff)

lemma createSession_pool:
  "createSession options u t ok m = (Some session, m', effs)
   \<Longrightarrow> sess_id session = u \<and> sessions m' = AList.update u session (sessions m)"
  by (auto simp: createSession_def Let_def split: if_splits)

lemma createSession_fail:
  "createSession options u t ok m = (None, m', effs) \<Longrightarrow> m' = m"
  by (auto simp: createSession_def Let_def split: if_splits)

lemma closeSession_pool:
  "sessions (fst (closeSession sid m)) = AList.delete sid (sessions m)"
  by (auto simp: closeSession_def map_of_eq_None_iff split: option.splits)

lemma pty_write_pool: "fst (pty_write sid d m) = m"
  by (simp add: pty_write_def split: option.splits)

lemma map_of_Some_key: "map_of xs k = Some v \<Longrightarrow> k \<in> fst ` set xs"
  by (metis map_of_eq_None_iff option.distinct(1))

lemma pty_resize_shape:
  "pty_resize sid c r m = Some (m', effs)
   \<Longrightarrow> m' = m
       \<or> (\<exists>managed. map_of (sessions m) sid = Some managed
             \<and> sessions m' = AList.update sid (managed\<lparr>cols := c, rows := r\<rparr>) (sessions m))"
  by (auto simp: pty_resize_def split: option.splits if_splits)

lemma pty_resize_keys:
  assumes "pty_resize sid c r m = Some (m', effs)"
  shows "fst ` set (sessions m') = fst ` set (sessions m)"
proof -
  from pty_resize_shape[OF assms] show ?thesis
  proof
    assume "m' = m"
    then show ?thesis by simp
  next
    assume "\<exists>managed. map_of (sessions m) sid = Some managed
             \<and> sessions m' = AList.update sid (managed\<lparr>cols := c, rows := r\<rparr>) (sessions m)"
    then obtain managed where g: "map_of (sessions m) sid = Some managed"
      and u: "sessions m' = AList.update sid (managed\<lparr>cols := c, rows := r\<rparr>) (sessions m)"
      by blast
    from g have "sid \<in> fst ` set (sessions m)" by (rule map_of_Some_key)
    then show ?thesis by (simp add: u dom_update insert_absorb)
  qed
qed

lemma pty_resize_keyed:
  assumes "pty_resize sid c r m = Some (m', effs)"
    and "\<forall>p\<in>set (sessions m). sess_id (snd p) = fst p"
  shows "\<forall>p\<in>set (sessions m'). sess_id (snd p) = fst p"
proof -
  from pty_resize_shape[OF assms(1)] show ?thesis
  proof
    assume "m' = m"
    with assms(2) show ?thesis by simp
  next
    assume "\<exists>managed. map_of (sessions m) sid = Some managed
             \<and> sessions m' = AList.update sid (managed\<lparr>cols := c, rows := r\<rparr>) (sessions m)"
    then obtain managed where g: "map_of (sessions m) sid = Some managed"
      and u: "sessions m' = AList.update sid (managed\<lparr>cols := c, rows := r\<rparr>) (sessions m)"
      by blast
    from g have "(sid, managed) \<in> set (sessions m)" by (rule map_of_SomeD)
    with assms(2) have "sess_id managed = sid" by force
    then have "sess_id (managed\<lparr>cols := c, rows := r\<rparr>) = sid" by simp
    from keyed_update[OF assms(2) this] u show ?thesis by simp
  qed
qed

lemma handleAuth_pool:
  "ptyManager (fst (handleAuth cid payload rid loc now srv)) = ptyManager srv
   \<and> sessionOwnership (fst (handleAuth cid payload rid loc now srv)) = sessionOwnership srv"
  by (simp add: handleAuth_def Let_def split: prod.splits)

lemma handleServiceMessage_pool:
  "ptyManager (fst (handleServiceMessage client req rid e srv)) = ptyManager srv
   \<and> sessionOwnership (fst (handleServiceMessage client req rid e srv)) = sessionOwnership srv"
  by (cases req) (simp_all add: handleServiceMessage_def storeClient_def split: prod.splits option.splits)

lemma handleSystemMessage_pool:
  "fst (handleSystemMessage client req rid e srv) = srv"
  by (cases req) (simp_all add: handleSystemMessage_def)

lemma both_inv_same:
  "ptyManager srv' = ptyManager srv \<Longrightarrow> sessionOwnership srv' = sessionOwnership srv
   \<Longrightarrow> both_inv srv srv'"
  by (simp add: both_inv_def sessions_keyed_def poolKeys_def ownedKeys_def)

lemma both_inv_resize:
  assumes "pty_resize sid c r (ptyManager srv) = Some (m', effs)"
    and "srv' = srv\<lparr>ptyManager := m'\<rparr>"
  shows "both_inv srv srv'"
  using pty_resize_keys[OF assms(1)] pty_resize_keyed[OF assms(1)] assms(2)
  by (simp add: both_inv_def sessions_keyed_def poolKeys_def ownedKeys_def)

lemma both_inv_create:
  "sessions (ptyManager srv') = AList.update k v (sessions (ptyManager srv)) \<Longrightarrow> sess_id v = k
   \<Longrightarrow> sessionOwnership srv' = AList.update k d (sessionOwnership srv)
   \<Longrightarrow> both_inv srv srv'"
  unfolding both_inv_def sessions_keyed_def poolKeys_def ownedKeys_def
  by (simp add: dom_update keyed_update) blast

lemma both_inv_close:
  "sessions (ptyManager srv') = AList.delete k (sessions (ptyManager srv))
   \<Longrightarrow> sessionOwnership srv' = AList.delete k (sessionOwnership srv)
   \<Longrightarrow> both_inv srv srv'"
  unfolding both_inv_def sessions_keyed_def poolKeys_def ownedKeys_def
  by (simp add: keys_delete keyed_delete) blast

lemma handlePTYMessage_both:
  "handlePTYMessage client req rid e srv = Some (srv', out) \<Longrightarrow> both_inv srv srv'"
proof (cases req)
  case (Create options)
  assume h: "handlePTYMessage client req rid e srv = Some (srv', out)"
  obtain r m effs where c: "createSession options (env_uuid e) (env_now e) (env_spawnOk e) (ptyManager srv) = (r, m, effs)"
    by (cases "createSession options (env_uuid e) (env_now e) (env_spawnOk e) (ptyManager srv)") auto
  from h Create c obtain session where r: "r = Some session"
    by (cases r) (auto simp: handlePTYMessage_def)
  from createSession_pool[OF c[unfolded r]] have
    k: "sess_id session = env_uuid e" and s: "sessions m = AList.update (env_uuid e) session (sessions (ptyManager srv))"
    by auto
  from h Create c r have
    "ptyManager srv' = m" "sessionOwnership srv' = AList.update (sess_id session) (deviceId client) (sessionOwnership srv)"
    by (auto simp: handlePTYMessage_def storeClient_def)
  then show ?thesis using k s
    by (intro both_inv_create[where k = "env_uuid e" and v = session and d = "deviceId client"]) simp_all
next
  case (Write sid d)
  then show "handlePTYMessage client req rid e srv = Some (srv', out) \<Longrightarrow> both_inv srv srv'"
    using pty_write_pool[of sid d "ptyManager srv"]
    by (auto simp: handlePTYMessage_def intro!: both_inv_same split: if_splits prod.splits)
next
  case (Resize sid c r)
  assume h: "handlePTYMessage client req rid e srv = Some (srv', out)"
  from h Resize have
    "srv' = srv
     \<or> (\<exists>m' effs. pty_resize sid (or_num c 0) (or_num r 0) (ptyManager srv) = Some (m', effs)
            \<and> srv' = srv\<lparr>ptyManager := m'\<rparr>)"
    by (auto simp: handlePTYMessage_def split: if_splits option.splits)
  then show ?thesis
    using both_inv_resize both_inv_same by blast
next
  case (CloseReq sid)
  assume h: "handlePTYMessage client req rid e srv = Some (srv', out)"
  show ?thesis
  proof (cases "canAccessSession client sid")
    case True
    with h CloseReq have
      "ptyManager srv' = fst (closeSession sid (ptyManager srv))"
      "sessionOwnership srv' = AList.delete sid (sessionOwnership srv)"
      by (auto simp: handlePTYMessage_def storeClient_def split: prod.splits)
    then show ?thesis
      by (intro both_inv_close[where k = sid]) (simp_all add: closeSession_pool)
  next
    case False
    with h CloseReq show ?thesis
      by (auto simp: handlePTYMessage_def intro!: both_inv_same)
  qed
next
  case (Subscribe sid)
  then show "handlePTYMessage client req rid e srv = Some (srv', out) \<Longrightarrow> both_inv srv srv'"
    by (auto simp: handlePTYMessage_def storeClient_def Let_def intro!: both_inv_same split: if_splits)
next
  case (Unsubscribe sid)
  then show "handlePTYMessage client req rid e srv = Some (srv', out) \<Longrightarrow> both_inv srv srv'"
    by (auto simp: handlePTYMessage_def storeClient_def intro!: both_inv_same)
next
  case ListReq
  then show "handlePTYMessage client req rid e srv = Some (srv', out) \<Longrightarrow> both_inv srv srv'"
    by (auto simp: handlePTYMessage_def Let_def intro!: both_inv_same)
next
  case (OtherPty a)
  then show "handlePTYMessage client req rid e srv = Some (srv', out) \<Longrightarrow> both_inv srv srv'"
    by (auto simp: handlePTYMessage_def intro!: both_inv_same)
qed


lemma handleMessage_both:
  "handleMessage cid req rid loc e srv = Some (srv', out) \<Longrightarrow> both_inv srv srv'"
proof (cases req)
  case (Auth payload)
  assume "handleMessage cid req rid loc e srv = Some (srv', out)"
  with Auth have "srv' = fst (handleAuth cid payload rid loc (env_now e) srv)"
    by (simp add: handleMessage_def)
  then show ?thesis
    by (simp add: both_inv_same handleAuth_pool)
next
  case (Pty r)
  assume "handleMessage cid req rid loc e srv = Some (srv', out)"
  with Pty show ?thesis
    by (auto simp: handleMessage_def both_inv_same handlePTYMessage_both split: option.splits)
next
  case (Service r)
  assume h: "handleMessage cid req rid loc e srv = Some (srv', out)"
  show ?thesis
  proof (cases "map_of (clients srv) cid")
    case None
    with h Service show ?thesis by (simp add: handleMessage_def both_inv_same)
  next
    case (Some client)
    with h Service have "handleServiceMessage client r rid e srv = (srv', out)"
      by (simp add: handleMessage_def)
    then have "srv' = fst (handleServiceMessage client r rid e srv)" by simp
    then show ?thesis by (simp add: both_inv_same handleServiceMessage_pool)
  qed
next
  case (System r)
  assume h: "handleMessage cid req rid loc e srv = Some (srv', out)"
  show ?thesis
  proof (cases "map_of (clients srv) cid")
    case None
    with h System show ?thesis by (simp add: handleMessage_def both_inv_same)
  next
    case (Some client)
    with h System have "handleSystemMessage client r rid e srv = (srv', out)"
      by (simp add: handleMessage_def)
    then have "srv' = fst (handleSystemMessage client r rid e srv)" by simp
    then show ?thesis by (simp add: both_inv_same handleSystemMessage_pool)
  qed
next
  case (UnknownType t)
  assume "handleMessage cid req rid loc e srv = Some (srv', out)"
  with UnknownType show ?thesis
    by (auto simp: handleMessage_def both_inv_same split: option.splits)
qed

lemma onMessage_both: "both_inv srv (fst (onMessage cid fr e srv))"
proof (cases "map_of (connections srv) cid")
  case None
  then show ?thesis by (simp add: onMessage_def both_inv_same)
next
  case (Some loc)
  show ?thesis
  proof (cases fr)
    case Malformed
    with Some show ?thesis by (simp add: onMessage_def both_inv_same)
  next
    case (Frame req rid)
    show ?thesis
    proof (cases "handleMessage cid req rid loc e srv")
      case None
      with Some Frame show ?thesis by (simp add: onMessage_def both_inv_same)
    next
      case (Some r)
      then have "both_inv srv (fst r)"
        using handleMessage_both[of cid req rid loc e srv "fst r" "snd r"] by simp
      with Some \<open>map_of (connections srv) cid = Some loc\<close> Frame show ?thesis
        by (simp add: onMessage_def)
    qed
  qed
qed

lemma onPtyExit_both: "both_inv srv (fst (onPtyExit sid code sig srv))"
  by (rule both_inv_close[where k = sid]) (simp_all add: onPtyExit_def Let_def)

lemma step_both:
  "\<not> isIpcCreate ev \<Longrightarrow> \<not> isIpcClose ev \<Longrightarrow> both_inv srv (fst (step N e ev srv))"
  by (cases ev)
     (simp_all add: step_def isIpcCreate_def isIpcClose_def onMessage_both onPtyExit_both
        both_inv_same onConnection_def onClose_def onPtyData_def onServiceStatus_def
        onServiceOutput_def Let_def)

lemma ipcCreate_keeps:
  "sessionOwnership (fst (ipcCreateSession options e srv)) = sessionOwnership srv
   \<and> (sessions_keyed srv \<longrightarrow> sessions_keyed (fst (ipcCreateSession options e srv)))
   \<and> poolKeys srv \<subseteq> poolKeys (fst (ipcCreateSession options e srv))"
proof -
  obtain r m effs where c:
    "createSession options (env_uuid e) (env_now e) (env_spawnOk e) (ptyManager srv) = (r, m, effs)"
    by (cases "createSession options (env_uuid e) (env_now e) (env_spawnOk e) (ptyManager srv)") auto
  show ?thesis
  proof (cases r)
    case None
    with c show ?thesis by (simp add: ipcCreateSession_def)
  next
    case (Some session)
    with c createSession_pool[OF c[unfolded Some]]
      keyed_update[of "sessions (ptyManager srv)" session "env_uuid e"]
    show ?thesis
      by (simp add: ipcCreateSession_def sessions_keyed_def poolKeys_def dom_update
            subset_insertI)
  qed
qed

lemma ipcClose_keeps:
  "sessionOwnership (fst (ipcCloseSession sid srv)) = sessionOwnership srv
   \<and> (sessions_keyed srv \<longrightarrow> sessions_keyed (fst (ipcCloseSession sid srv)))
   \<and> poolKeys (fst (ipcCloseSession sid srv)) \<subseteq> poolKeys srv"
proof -
  have "ptyManager (fst (ipcCloseSession sid srv)) = fst (closeSession sid (ptyManager srv))"
    "sessionOwnership (fst (ipcCloseSession sid srv)) = sessionOwnership srv"
    by (simp_all add: ipcCloseSession_def split: prod.splits)
  then show ?thesis
    by (simp add: sessions_keyed_def poolKeys_def closeSession_pool keys_delete keyed_delete)
qed

lemma step_live_owned:
  "\<not> isIpcCreate ev \<Longrightarrow> sessions_keyed srv \<and> poolKeys srv \<subseteq> ownedKeys srv
   \<Longrightarrow> sessions_keyed (fst (step N e ev srv))
       \<and> poolKeys (fst (step N e ev srv)) \<subseteq> ownedKeys (fst (step N e ev srv))"
proof (cases "isIpcClose ev")
  case True
  then obtain sid where "ev = IpcCloseSession sid"
    by (cases ev) (simp_all add: isIpcClose_def)
  moreover assume "sessions_keyed srv \<and> poolKeys srv \<subseteq> ownedKeys srv"
  ultimately show ?thesis
    using ipcClose_keeps[of sid srv] by (auto simp: step_def ownedKeys_def)
next
  case False
  assume "\<not> isIpcCreate ev" "sessions_keyed srv \<and> poolKeys srv \<subseteq> ownedKeys srv"
  with False step_both[of ev srv N e] show ?thesis
    by (simp add: both_inv_def)
qed

lemma step_owned_live:
  "\<not> isIpcClose ev \<Longrightarrow> sessions_keyed srv \<and> ownedKeys srv \<subseteq> poolKeys srv
   \<Longrightarrow> sessions_keyed (fst (step N e ev srv))
       \<and> ownedKeys (fst (step N e ev srv)) \<subseteq> poolKeys (fst (step N e ev srv))"
proof (cases "isIpcCreate ev")
  case True
  then obtain options where "ev = IpcCreateSession options"
    by (cases ev) (simp_all add: isIpcCreate_def)
  moreover assume "sessions_keyed srv \<and> ownedKeys srv \<subseteq> poolKeys srv"
  ultimately show ?thesis
    using ipcCreate_keeps[of options e srv] by (auto simp: step_def ownedKeys_def)
next
  case False
  assume "\<not> isIpcClose ev" "sessions_keyed srv \<and> ownedKeys srv \<subseteq> poolKeys srv"
  with False step_both[of ev srv N e] show ?thesis
    by (simp add: both_inv_def)
qed

lemma run_live_owned:
  "\<forall>x\<in>set evs. \<not> isIpcCreate (snd x) \<Longrightarrow> sessions_keyed srv \<and> poolKeys srv \<subseteq> ownedKeys srv
   \<Longrightarrow> sessions_keyed (run N srv evs) \<and> poolKeys (run N srv evs) \<subseteq> ownedKeys (run N srv evs)"
proof (induction evs arbitrary: srv)
  case Nil
  then show ?case by simp
next
  case (Cons x xs)
  from Cons.prems have "\<not> isIpcCreate (snd x)" by simp
  from step_live_owned[OF this Cons.prems(2), of N "fst x"] Cons.prems(1)
  show ?case by (simp add: Cons.IH)
qed

lemma run_owned_live:
  "\<forall>x\<in>set evs. \<not> isIpcClose (snd x) \<Longrightarrow> sessions_keyed srv \<and> ownedKeys srv \<subseteq> poolKeys srv
   \<Longrightarrow> sessions_keyed (run N srv evs) \<and> ownedKeys (run N srv evs) \<subseteq> poolKeys (run N srv evs)"
proof (induction evs arbitrary: srv)
  case Nil
  then show ?case by simp
next
  case (Cons x xs)
  from Cons.prems have "\<not> isIpcClose (snd x)" by simp
  from step_owned_live[OF this Cons.prems(2), of N "fst x"] Cons.prems(1)
  show ?case by (simp add: Cons.IH)
qed

lemma new_server_inv:
  "sessions_keyed (newRemoteServer tok restrict sh home)
   \<and> poolKeys (newRemoteServer tok restrict sh home) = {}
   \<and> ownedKeys (newRemoteServer tok restrict sh home) = {}"
  by (simp add: newRemoteServer_def sessions_keyed_def poolKeys_def ownedKeys_def)

text \<open>
  Claim C4 as stated fails in both directions. A session the desktop creates through
  IPC is live and has no owner; a session the desktop closes through IPC has left the
  pool while its ownership entry is still there (it goes when the PTY's exit event
  arrives).
\<close>

theorem C4_desktop_sessions_break_the_equivalence:
  "''s0'' \<in> liveSessions demoDesktop \<and> owner demoDesktop ''s0'' = None
   \<and> ''s1'' \<notin> liveSessions demoDesktopClosed \<and> owner demoDesktopClosed ''s1'' = Some ''phone''"
  unfolding demoDesktopClosed_def demoGateway_value
  by (simp add: demoDesktop_def demoServer_def demoEnv_def noOptions_def liveSessions_def owner_def
        step_def ipcCreateSession_def ipcCloseSession_def newRemoteServer_def pool_defs Let_def
        demoSession_def editorSession_def)

text \<open>
  Claim C4, amended. Starting from the empty gateway: at every state reached without the
  desktop's \<open>create-session\<close>, every live session has an owner in the ownership map; at
  every state reached without the desktop's \<open>close-session\<close>, every session that has an
  owner is live. So at every state reached through WebSocket frames and PTY events
  alone, a session id is in the pool's list if and only if it has an owner. The
  desktop's \<open>create-session\<close> records no owner.
\<close>

theorem C4_ownership_tracks_pool_without_ipc:
  "((\<forall>x\<in>set evs. \<not> isIpcCreate (snd x)) \<longrightarrow>
      (\<forall>sid. sid \<in> liveSessions (run N (newRemoteServer tok restrict sh home) evs)
         \<longrightarrow> owner (run N (newRemoteServer tok restrict sh home) evs) sid \<noteq> None))
   \<and> ((\<forall>x\<in>set evs'. \<not> isIpcClose (snd x)) \<longrightarrow>
      (\<forall>sid. owner (run N (newRemoteServer tok restrict sh home) evs') sid \<noteq> None
         \<longrightarrow> sid \<in> liveSessions (run N (newRemoteServer tok restrict sh home) evs')))
   \<and> sessionOwnership (fst (ipcCreateSession options e srv)) = sessionOwnership srv"
proof (intro conjI impI allI)
  fix sid
  assume a: "\<forall>x\<in>set evs. \<not> isIpcCreate (snd x)"
    and b: "sid \<in> liveSessions (run N (newRemoteServer tok restrict sh home) evs)"
  from run_live_owned[OF a, of "newRemoteServer tok restrict sh home" N] new_server_inv[of tok restrict sh home]
  have "sessions_keyed (run N (newRemoteServer tok restrict sh home) evs)"
    "poolKeys (run N (newRemoteServer tok restrict sh home) evs)
       \<subseteq> ownedKeys (run N (newRemoteServer tok restrict sh home) evs)"
    by simp_all
  with b have "sid \<in> ownedKeys (run N (newRemoteServer tok restrict sh home) evs)"
    by (auto simp: liveSessions_keys)
  then show "owner (run N (newRemoteServer tok restrict sh home) evs) sid \<noteq> None"
    using owner_keys by blast
next
  fix sid
  assume a: "\<forall>x\<in>set evs'. \<not> isIpcClose (snd x)"
    and b: "owner (run N (newRemoteServer tok restrict sh home) evs') sid \<noteq> None"
  from run_owned_live[OF a, of "newRemoteServer tok restrict sh home" N] new_server_inv[of tok restrict sh home]
  have "sessions_keyed (run N (newRemoteServer tok restrict sh home) evs')"
    "ownedKeys (run N (newRemoteServer tok restrict sh home) evs')
       \<subseteq> poolKeys (run N (newRemoteServer tok restrict sh home) evs')"
    by simp_all
  moreover from b have "sid \<in> ownedKeys (run N (newRemoteServer tok restrict sh home) evs')"
    using owner_keys by blast
  ultimately show "sid \<in> liveSessions (run N (newRemoteServer tok restrict sh home) evs')"
    by (auto simp: liveSessions_keys)
next
  show "sessionOwnership (fst (ipcCreateSession options e srv)) = sessionOwnership srv"
    using ipcCreate_keeps by simp
qed

theorem C4_ownership_tracks_pool_without_ipc_witness:
  "list_all (\<lambda>x. \<not> isIpcCreate (snd x)) demoEvents
   \<and> list_all (\<lambda>x. \<not> isIpcClose (snd x)) demoEvents
   \<and> ''s1'' \<in> liveSessions demoGateway
   \<and> owner demoGateway ''s1'' = Some ''phone''
   \<and> sessionOwnership (fst (ipcCreateSession noOptions (demoEnv ''s0'' 5) demoServer)) = []"
  using C4_ownership_tracks_pool_without_ipc
          [where evs = demoEvents and evs' = demoEvents and N = decimalNumber
             and tok = "''5ec2e7''" and restrict = True and sh = "''/bin/zsh''"
             and home = "Some ''/Users/me''" and options = noOptions
             and e = "demoEnv ''s0'' 5" and srv = demoServer]
  unfolding demoGateway_value
  by (simp add: demoEvents_def isIpcCreate_def isIpcClose_def liveSessions_def owner_def
        getAllSessions_def demoSession_def editorSession_def demoServer_def newRemoteServer_def)

section \<open>Properties of the client SDK\<close>

text \<open>
  Claim C9 as stated fails: \<open>request\<close> takes no duration from its caller, and the
  request issued at time 0 is rejected, and removed from the pending map, at 10000 ms.
\<close>

theorem C9_request_rejected_after_10s:
  "requestTimers demoRequested = [(10000, ''q1'')]
   \<and> requestTimeout (10000, ''q1'') 10000 demoRequested
       = (\<lparr>pendingRequests = [], socketOpen = True, requestTimers = []\<rparr>,
          [Reject ''q1'' ''Request timed out''])"
  by (simp add: demoRequested_def request_def requestTimeout_def newAgentClient_def Let_def)

text \<open>
  Claim C9, amended. Every request of \<open>AgentClient\<close> arms one timer that is due a
  fixed 10000 ms after the call (the caller cannot choose the duration); the timer does
  not fire before it is due; when it fires while the request is still pending, the
  request is rejected with \<open>Request timed out\<close> and removed from the pending map.
\<close>

theorem C9_request_timeout_fixed_10s:
  "requestTimers (fst (request m rid now c)) = requestTimers c @ [(now + 10000, rid)]
   \<and> rid \<in> set (pendingRequests (fst (request m rid now c)))
   \<and> (t < due \<longrightarrow> requestTimeout (due, rid') t c' = (c', []))
   \<and> ((due, rid') \<in> set (requestTimers c') \<and> due \<le> t \<and> rid' \<in> set (pendingRequests c')
       \<longrightarrow> snd (requestTimeout (due, rid') t c') = [Reject rid' ''Request timed out'']
         \<and> rid' \<notin> set (pendingRequests (fst (requestTimeout (due, rid') t c'))))"
  by (simp add: request_def requestTimeout_def Let_def)

theorem C9_request_timeout_fixed_10s_witness:
  "requestTimers demoRequested = [(10000, ''q1'')]
   \<and> ''q1'' \<in> set (pendingRequests demoRequested)
   \<and> requestTimeout (10000, ''q1'') 9999 demoRequested = (demoRequested, [])
   \<and> snd (requestTimeout (10000, ''q1'') 10000 demoRequested) = [Reject ''q1'' ''Request timed out'']
   \<and> ''q1'' \<notin> set (pendingRequests (fst (requestTimeout (10000, ''q1'') 10000 demoRequested)))"
  using C9_request_timeout_fixed_10s
          [where m = "(''pty'', ''list'')" and rid = "''q1''" and now = 0 and c = newAgentClient
             and t = 9999 and due = 10000 and rid' = "''q1''" and c' = demoRequested]
        C9_request_timeout_fixed_10s
          [where t = 10000 and due = 10000 and rid' = "''q1''" and c' = demoRequested]
  by (simp add: demoRequested_def request_def requestTimeout_def newAgentClient_def Let_def)

end
